theory Spec2Isabelle
  imports Main
begin

section \<open>The HashiCorp Boundary cancel-sessions action (src/script.mjs)\<close>

text \<open>
  The module exports three handlers, \<open>invoke\<close>, \<open>error\<close> and \<open>halt\<close>. \<open>invoke\<close>
  validates two identifiers, reads two secrets and the base URL, and then performs three
  HTTP requests in sequence: authenticate, read the session (for its version), cancel the
  session. Every failure is an exception of one of two module-private classes,
  \<open>RetryableError\<close> and \<open>FatalError\<close>; anything else that is thrown inside the
  \<open>try\<close> block is wrapped as a \<open>FatalError\<close> by the \<open>catch\<close> clause.

  The embedding makes the effects explicit. The network is a transport function that
  answers a request given the requests sent before it, and every handler passes the list of
  requests sent so far through and returns it. Exceptions are values of a sum type, those
  that JavaScript raises implicitly included: the \<open>TypeError\<close> of a property read on
  \<open>null\<close>, and the \<open>TypeError\<close> of a template literal or of \<open>encodeURIComponent\<close> whose
  argument has no string form. Of a \<open>console.log\<close> call the model keeps the evaluation of
  its template, which may throw, not the output. The two \<open>setTimeout\<close> delays and the
  \<open>error\<close> handler (which throws the error it is given) are not modelled.
\<close>

subsection \<open>JavaScript values\<close>

text \<open>
  The values are those of JSON, and \<open>undefined\<close>. Strings are the UTF-8 bytes of the
  JavaScript string (a string with an unpaired surrogate has none, and is not a value of the
  model). Numbers are the integers (the version of a session is one); \<open>JNum n\<close> is the
  Number whose value is \<open>n\<close>. The keys of an object are distinct.
\<close>

datatype jsval =
    JUndefined
  | JNull
  | JBool bool
  | JNum int
  | JStr string
  | JArr "jsval list"
  | JObj "(string \<times> jsval) list"

subsection \<open>Errors\<close>

text \<open>
  \<open>Error m\<close> is an exception that is an instance of neither class of the module: the
  \<open>TypeError\<close> of a property read on \<open>null\<close>, the rejection of \<open>fetch\<close> or of
  \<open>response.json()\<close>, the error thrown by \<open>getBaseURL\<close>. The two classes are not
  exported, so code outside the module throws only such errors.
\<close>

datatype js_error =
    RetryableError string
  | FatalError string
  | Error string

fun message :: "js_error \<Rightarrow> string" where
  "message (RetryableError m) = m"
| "message (FatalError m) = m"
| "message (Error m) = m"

fun instanceof_RetryableError :: "js_error \<Rightarrow> bool" where
  "instanceof_RetryableError (RetryableError m) = True"
| "instanceof_RetryableError e = False"

fun instanceof_FatalError :: "js_error \<Rightarrow> bool" where
  "instanceof_FatalError (FatalError m) = True"
| "instanceof_FatalError e = False"

text \<open>The \<open>retryable\<close> property that the two constructors set.\<close>

fun retryable :: "js_error \<Rightarrow> bool option" where
  "retryable (RetryableError m) = Some True"
| "retryable (FatalError m) = Some False"
| "retryable (Error m) = None"

subsection \<open>Truthiness, \<open>typeof\<close>, conversion to a string\<close>

text \<open>\<open>!v\<close> is \<open>\<not> truthy v\<close>.\<close>

fun truthy :: "jsval \<Rightarrow> bool" where
  "truthy JUndefined = False"
| "truthy JNull = False"
| "truthy (JBool b) = b"
| "truthy (JNum n) = (n \<noteq> 0)"
| "truthy (JStr s) = (s \<noteq> [])"
| "truthy (JArr xs) = True"
| "truthy (JObj kvs) = True"

text \<open>\<open>a || b\<close>\<close>

definition js_or :: "jsval \<Rightarrow> jsval \<Rightarrow> jsval" where
  "js_or a b = (if truthy a then a else b)"

fun typeof :: "jsval \<Rightarrow> string" where
  "typeof JUndefined = ''undefined''"
| "typeof JNull = ''object''"
| "typeof (JBool b) = ''boolean''"
| "typeof (JNum n) = ''number''"
| "typeof (JStr s) = ''string''"
| "typeof (JArr xs) = ''object''"
| "typeof (JObj kvs) = ''object''"

definition digit :: "nat \<Rightarrow> char" where
  "digit n = ''0123456789'' ! n"

fun dec :: "nat \<Rightarrow> string" where
  "dec n = (if n < 10 then [digit n] else dec (n div 10) @ [digit (n mod 10)])"

fun join_comma :: "string list \<Rightarrow> string" where
  "join_comma [] = []"
| "join_comma [s] = s"
| "join_comma (s # t # ss) = s @ '','' @ join_comma (t # ss)"

text \<open>
  The string of a number: plain decimal below \<open>10^21\<close>, and from there on the shortest
  digits, a point after the first, and the exponent.
\<close>

definition exponential :: "string \<Rightarrow> string" where
  "exponential ds =
     (case rev (dropWhile (\<lambda>c. c = CHR ''0'') (rev ds)) of
        [] \<Rightarrow> []
      | d # fs \<Rightarrow> d # (if fs = [] then [] else ''.'' @ fs) @ ''e+'' @ dec (length ds - 1))"

definition number_to_string :: "int \<Rightarrow> string" where
  "number_to_string n =
     (if n < 0 then ''-'' else [])
     @ (if \<bar>n\<bar> < 10 ^ 21 then dec (nat \<bar>n\<bar>) else exponential (dec (nat \<bar>n\<bar>)))"

text \<open>
  \<open>to_string v\<close> is the conversion that a template literal and \<open>encodeURIComponent\<close>
  apply to \<open>v\<close>. An object that has a key \<open>toString\<close> of its own has no callable
  \<open>toString\<close> (no JSON value is callable) and its \<open>valueOf\<close> gives no primitive, so the
  conversion throws a \<open>TypeError\<close> (with the message of V8); any other object is
  \<open>[object Object]\<close>. An array is its elements joined by commas, \<open>undefined\<close> and
  \<open>null\<close> as the empty string, and throws where an element does.
\<close>

fun to_string :: "jsval \<Rightarrow> js_error + string"
  and to_strings :: "jsval list \<Rightarrow> js_error + string list" where
  "to_string JUndefined = Inr ''undefined''"
| "to_string JNull = Inr ''null''"
| "to_string (JBool b) = Inr (if b then ''true'' else ''false'')"
| "to_string (JNum n) = Inr (number_to_string n)"
| "to_string (JStr s) = Inr s"
| "to_string (JArr xs) =
     (case to_strings xs of Inl e \<Rightarrow> Inl e | Inr ss \<Rightarrow> Inr (join_comma ss))"
| "to_string (JObj kvs) =
     (if map_of kvs ''toString'' = None then Inr ''[object Object]''
      else Inl (Error ''Cannot convert object to primitive value''))"
| "to_strings [] = Inr []"
| "to_strings (x # xs) =
     (case (if x = JUndefined \<or> x = JNull then Inr [] else to_string x) of
        Inl e \<Rightarrow> Inl e
      | Inr s \<Rightarrow> (case to_strings xs of Inl e \<Rightarrow> Inl e | Inr ss \<Rightarrow> Inr (s # ss)))"

text \<open>
  \<open>console.log\<close> of a template literal that interpolates the values \<open>vs\<close>: each is
  converted to a string, from left to right.
\<close>

fun console_log :: "jsval list \<Rightarrow> js_error + unit" where
  "console_log [] = Inr ()"
| "console_log (v # vs) = (case to_string v of Inl e \<Rightarrow> Inl e | Inr s \<Rightarrow> console_log vs)"

definition nullish :: "jsval \<Rightarrow> bool" where
  "nullish v = (v = JUndefined \<or> v = JNull)"

text \<open>
  \<open>member v k\<close> is \<open>v.k\<close> for a value that is neither \<open>undefined\<close> nor \<open>null\<close>. The
  module reads the properties \<open>attributes\<close>, \<open>token\<close>, \<open>version\<close>,
  \<open>BASIC_USERNAME\<close> and \<open>BASIC_PASSWORD\<close>, which only an object can have.
\<close>

fun member :: "jsval \<Rightarrow> string \<Rightarrow> jsval" where
  "member (JObj kvs) k = (case map_of kvs k of None \<Rightarrow> JUndefined | Some v \<Rightarrow> v)"
| "member v k = JUndefined"

subsection \<open>Property reads\<close>

text \<open>\<open>v.k\<close>, which throws a \<open>TypeError\<close> (with the message of V8) on \<open>undefined\<close> and \<open>null\<close>.\<close>

definition get_prop :: "jsval \<Rightarrow> string \<Rightarrow> js_error + jsval" where
  "get_prop v k =
     (if nullish v
      then Inl (Error (''Cannot read properties of ''
                       @ (if v = JNull then ''null'' else ''undefined'') @ '' (reading ''
                       @ [CHR 0x27] @ k @ [CHR 0x27] @ '')''))
      else Inr (member v k))"

text \<open>\<open>v?.k\<close>\<close>

definition opt_chain :: "jsval \<Rightarrow> string \<Rightarrow> jsval" where
  "opt_chain v k = (if nullish v then JUndefined else member v k)"

subsection \<open>Strings: \<open>trim\<close> and \<open>encodeURIComponent\<close>\<close>

text \<open>The UTF-8 encodings of the code points that are WhiteSpace or LineTerminator.\<close>

definition white_space :: "string list" where
  "white_space =
     [[CHR 0x09], [CHR 0x0A], [CHR 0x0B], [CHR 0x0C], [CHR 0x0D], [CHR 0x20],
      [CHR 0xC2, CHR 0xA0],
      [CHR 0xE1, CHR 0x9A, CHR 0x80],
      [CHR 0xE2, CHR 0x80, CHR 0x80], [CHR 0xE2, CHR 0x80, CHR 0x81],
      [CHR 0xE2, CHR 0x80, CHR 0x82], [CHR 0xE2, CHR 0x80, CHR 0x83],
      [CHR 0xE2, CHR 0x80, CHR 0x84], [CHR 0xE2, CHR 0x80, CHR 0x85],
      [CHR 0xE2, CHR 0x80, CHR 0x86], [CHR 0xE2, CHR 0x80, CHR 0x87],
      [CHR 0xE2, CHR 0x80, CHR 0x88], [CHR 0xE2, CHR 0x80, CHR 0x89],
      [CHR 0xE2, CHR 0x80, CHR 0x8A],
      [CHR 0xE2, CHR 0x80, CHR 0xA8], [CHR 0xE2, CHR 0x80, CHR 0xA9],
      [CHR 0xE2, CHR 0x80, CHR 0xAF],
      [CHR 0xE2, CHR 0x81, CHR 0x9F],
      [CHR 0xE3, CHR 0x80, CHR 0x80],
      [CHR 0xEF, CHR 0xBB, CHR 0xBF]]"

fun starts_with :: "string \<Rightarrow> string \<Rightarrow> bool" where
  "starts_with [] s = True"
| "starts_with (c # cs) [] = False"
| "starts_with (c # cs) (d # ds) = (c = d \<and> starts_with cs ds)"

text \<open>
  \<open>strip ws s\<close> removes from the front of \<open>s\<close> every leading sequence that is in \<open>ws\<close>;
  no sequence in \<open>ws\<close> is empty.
\<close>

fun strip :: "string list \<Rightarrow> string \<Rightarrow> string" where
  "strip ws [] = []"
| "strip ws (c # cs) =
     (case find (\<lambda>w. starts_with w (c # cs)) ws of
        None \<Rightarrow> c # cs
      | Some w \<Rightarrow> strip ws (drop (length w - 1) cs))"

definition trim :: "string \<Rightarrow> string" where
  "trim s = rev (strip (map rev white_space) (rev (strip white_space s)))"

definition unreserved :: "char \<Rightarrow> bool" where
  "unreserved c =
     (c \<in> set ''ABCDEFGHIJKLMNOPQRSTUVWXYZabcdefghijklmnopqrstuvwxyz0123456789-_.!~*()''
      \<or> c = CHR 0x27)"

definition percent :: "char \<Rightarrow> string" where
  "percent c =
     [CHR ''%'', ''0123456789ABCDEF'' ! (of_char c div 16), ''0123456789ABCDEF'' ! (of_char c mod 16)]"

text \<open>Every byte that is not an unreserved character is written as a percent escape.\<close>

definition encodeURIComponent :: "string \<Rightarrow> string" where
  "encodeURIComponent s = concat (map (\<lambda>c. if unreserved c then [c] else percent c) s)"

subsection \<open>The platform: transport, clock, client header\<close>

record request =
  url :: string
  httpMethod :: string
  headers :: "(string \<times> string) list"
  body :: "jsval option"

text \<open>
  A response as the module reads it: \<open>responseText\<close> is what \<open>response.text()\<close> resolves to, and
  \<open>json\<close> what \<open>response.json()\<close> does, \<open>Inl m\<close> when it rejects with an error of
  message \<open>m\<close>. A response is one that was received in full: the module awaits
  \<open>response.text()\<close> before it looks at the status of a response that is not \<open>ok\<close>, and a
  body that cannot be read is, like a \<open>fetch\<close> that rejects, the answer \<open>Inl m\<close> of the
  transport below.
\<close>

record response =
  status :: nat
  statusText :: string
  responseText :: string
  json :: "string + jsval"

text \<open>\<open>response.ok\<close>: the status is in the range 200 to 299.\<close>

definition ok :: "response \<Rightarrow> bool" where
  "ok r = (200 \<le> status r \<and> status r \<le> 299)"

text \<open>
  The UTC components of a time value, the month counted from 1, as
  \<open>Date.prototype.toISOString\<close> prints them.
\<close>

record date =
  year :: nat
  month :: nat
  day :: nat
  hours :: nat
  minutes :: nat
  seconds :: nat
  milliseconds :: nat

text \<open>\<open>pad k n\<close>: the \<open>k\<close> low decimal digits of \<open>n\<close>.\<close>

fun pad :: "nat \<Rightarrow> nat \<Rightarrow> string" where
  "pad 0 n = []"
| "pad (Suc k) n = pad k (n div 10) @ [digit (n mod 10)]"

definition toISOString :: "date \<Rightarrow> string" where
  "toISOString d =
     (if year d \<le> 9999 then pad 4 (year d) else ''+'' @ pad 6 (year d))
     @ ''-'' @ pad 2 (month d) @ ''-'' @ pad 2 (day d)
     @ ''T'' @ pad 2 (hours d) @ '':'' @ pad 2 (minutes d) @ '':'' @ pad 2 (seconds d)
     @ ''.'' @ pad 3 (milliseconds d) @ ''Z''"

text \<open>
  What the module takes from outside itself: the constant \<open>SGNL_USER_AGENT\<close> of the
  utilities package, the global \<open>fetch\<close> (\<open>transport P sent rq\<close> is the answer to \<open>rq\<close>
  after the requests \<open>sent\<close>, \<open>Inl m\<close> a rejection with an error of message \<open>m\<close>, by
  \<open>fetch\<close> or by the read of the body), and the time that \<open>new Date()\<close> reads.
\<close>

record platform =
  SGNL_USER_AGENT :: string
  transport :: "request list \<Rightarrow> request \<Rightarrow> string + response"
  clock :: date

definition fetch :: "platform \<Rightarrow> request \<Rightarrow> request list \<Rightarrow> (js_error + response) \<times> request list" where
  "fetch P rq sent =
     ((case transport P sent rq of Inl m \<Rightarrow> Inl (Error m) | Inr r \<Rightarrow> Inr r), sent @ [rq])"

subsection \<open>Parameters and context\<close>

text \<open>\<open>params\<close> is an object; a property that is not there reads as \<open>undefined\<close>.\<close>

type_synonym params = "string \<rightharpoonup> jsval"

definition param :: "params \<Rightarrow> string \<Rightarrow> jsval" where
  "param p k = (case p k of None \<Rightarrow> JUndefined | Some v \<Rightarrow> v)"

record "context" =
  secrets :: jsval
  environment :: "string \<rightharpoonup> string"

text \<open>
  Modelled from the spec: \<open>getBaseURL\<close> of the package \<open>@sgnl-actions/utils\<close> is not
  part of the sources. The base URL is resolved from an explicit parameter (\<open>address\<close>) or
  else from the environment setting \<open>ADDRESS\<close>; it is normalised to have no trailing slash;
  its absence is an error, with the message that tests/script.test.js expects.
\<close>

definition no_url :: string where
  "no_url = ''No URL specified. Provide address parameter or ADDRESS environment variable''"

definition getBaseURL :: "params \<Rightarrow> context \<Rightarrow> string + string" where
  "getBaseURL p c =
     (let explicit = (case p ''address'' of Some (JStr a) \<Rightarrow> a | _ \<Rightarrow> []);
          setting = (case environment c ''ADDRESS'' of Some a \<Rightarrow> a | None \<Rightarrow> []);
          address = (if explicit \<noteq> [] then explicit else setting)
      in if address = [] then Inl no_url
         else Inr (rev (dropWhile (\<lambda>x. x = CHR ''/'') (rev address))))"

subsection \<open>validateInputs\<close>

text \<open>
  The condition of each \<open>if\<close>:
  \<open>!v || typeof v !== 'string' || v.trim() === ''\<close>; \<open>trim\<close> is reached for a string only.
\<close>

definition invalid_id :: "jsval \<Rightarrow> bool" where
  "invalid_id v =
     (\<not> truthy v \<or> typeof v \<noteq> ''string''
      \<or> (case v of JStr s \<Rightarrow> trim s = [] | _ \<Rightarrow> False))"

definition validateInputs :: "params \<Rightarrow> js_error + unit" where
  "validateInputs p =
     (if invalid_id (param p ''sessionId'')
      then Inl (FatalError ''Invalid or missing sessionId parameter'')
      else if invalid_id (param p ''authMethodId'')
      then Inl (FatalError ''Invalid or missing authMethodId parameter'')
      else Inr ())"

subsection \<open>authenticate\<close>

definition authenticate_url :: "string \<Rightarrow> string \<Rightarrow> string" where
  "authenticate_url baseUrl authMethodId =
     baseUrl @ ''/v1/auth-methods/'' @ encodeURIComponent authMethodId @ '':authenticate''"

definition authenticate_request :: "platform \<Rightarrow> string \<Rightarrow> jsval \<Rightarrow> jsval \<Rightarrow> request" where
  "authenticate_request P endpoint username password =
     \<lparr>url = endpoint,
      httpMethod = ''POST'',
      headers = [(''Content-Type'', ''application/json''),
                 (''User-Agent'', SGNL_USER_AGENT P)],
      body = Some (JObj [(''attributes'',
                          JObj [(''login_name'', username), (''password'', password)])])\<rparr>"

text \<open>The branches of \<open>if (!response.ok)\<close>, in the order of the source.\<close>

definition authenticate_failure :: "response \<Rightarrow> js_error" where
  "authenticate_failure r =
     (if status r = 429 then RetryableError ''Boundary API rate limit exceeded''
      else if status r = 401 \<or> status r = 403 then FatalError ''Invalid username or password''
      else if status r \<ge> 500 then RetryableError (''Boundary API server error: '' @ dec (status r))
      else FatalError (''Failed to authenticate: '' @ dec (status r) @ '' '' @ statusText r
                       @ '' - '' @ responseText r))"

text \<open>
  The URL is built first; \<open>encodeURIComponent\<close> converts its argument to a string, and
  throws where that does.
\<close>

definition authenticate ::
  "platform \<Rightarrow> jsval \<Rightarrow> jsval \<Rightarrow> jsval \<Rightarrow> string \<Rightarrow> request list \<Rightarrow> (js_error + jsval) \<times> request list" where
  "authenticate P authMethodId username password baseUrl sent =
     (case to_string authMethodId of
        Inl e \<Rightarrow> (Inl e, sent)
      | Inr a \<Rightarrow>
     (case fetch P (authenticate_request P (authenticate_url baseUrl a) username password) sent of
        (Inl e, sent') \<Rightarrow> (Inl e, sent')
      | (Inr r, sent') \<Rightarrow>
          if \<not> ok r then (Inl (authenticate_failure r), sent')
          else (case json r of
                  Inl m \<Rightarrow> (Inl (Error m), sent')
                | Inr data \<Rightarrow>
                    (case get_prop data ''attributes'' of
                       Inl e \<Rightarrow> (Inl e, sent')
                     | Inr attributes \<Rightarrow>
                         if \<not> truthy (opt_chain attributes ''token'')
                         then (Inl (FatalError ''No token returned from authentication''), sent')
                         else (Inr (opt_chain attributes ''token''), sent')))))"

subsection \<open>getSession\<close>

definition session_url :: "string \<Rightarrow> string \<Rightarrow> string" where
  "session_url baseUrl sessionId = baseUrl @ ''/v1/sessions/'' @ encodeURIComponent sessionId"

definition getSession_request :: "platform \<Rightarrow> string \<Rightarrow> string \<Rightarrow> request" where
  "getSession_request P endpoint token =
     \<lparr>url = endpoint,
      httpMethod = ''GET'',
      headers = [(''Authorization'', ''Bearer '' @ token),
                 (''Content-Type'', ''application/json''),
                 (''User-Agent'', SGNL_USER_AGENT P)],
      body = None\<rparr>"

text \<open>
  The error that a response that is not \<open>ok\<close> makes the function throw; the template of
  the message for 404 converts \<open>sessionId\<close>, and throws instead where that does.
\<close>

definition getSession_failure :: "jsval \<Rightarrow> response \<Rightarrow> js_error" where
  "getSession_failure sessionId r =
     (if status r = 429 then RetryableError ''Boundary API rate limit exceeded''
      else if status r = 401 then FatalError ''Invalid or expired authentication token''
      else if status r = 404
        then (case to_string sessionId of
                Inl e \<Rightarrow> e
              | Inr s \<Rightarrow> FatalError (''Session not found: '' @ s))
      else if status r \<ge> 500 then RetryableError (''Boundary API server error: '' @ dec (status r))
      else FatalError (''Failed to get session: '' @ dec (status r) @ '' '' @ statusText r
                       @ '' - '' @ responseText r))"

text \<open>
  The URL is built first and the headers next, the template \<open>Bearer ${token}\<close> among them:
  a session id or a token that has no string form makes the function throw before a request
  is sent.
\<close>

definition getSession ::
  "platform \<Rightarrow> jsval \<Rightarrow> jsval \<Rightarrow> string \<Rightarrow> request list \<Rightarrow> (js_error + jsval) \<times> request list" where
  "getSession P sessionId token baseUrl sent =
     (case to_string sessionId of
        Inl e \<Rightarrow> (Inl e, sent)
      | Inr s \<Rightarrow>
     (case to_string token of
        Inl e \<Rightarrow> (Inl e, sent)
      | Inr t \<Rightarrow>
     (case fetch P (getSession_request P (session_url baseUrl s) t) sent of
        (Inl e, sent') \<Rightarrow> (Inl e, sent')
      | (Inr r, sent') \<Rightarrow>
          if \<not> ok r then (Inl (getSession_failure sessionId r), sent')
          else (case json r of
                  Inl m \<Rightarrow> (Inl (Error m), sent')
                | Inr data \<Rightarrow>
                    (case get_prop data ''version'' of
                       Inl e \<Rightarrow> (Inl e, sent')
                     | Inr version \<Rightarrow>
                         if \<not> truthy version
                         then (Inl (FatalError ''No version returned from session''), sent')
                         else (Inr version, sent'))))))"

subsection \<open>cancelSession\<close>

definition cancel_url :: "string \<Rightarrow> string \<Rightarrow> string" where
  "cancel_url baseUrl sessionId =
     baseUrl @ ''/v1/sessions/'' @ encodeURIComponent sessionId @ '':cancel''"

definition cancelSession_request :: "platform \<Rightarrow> string \<Rightarrow> string \<Rightarrow> jsval \<Rightarrow> jsval \<Rightarrow> request" where
  "cancelSession_request P endpoint token sessionId version =
     \<lparr>url = endpoint,
      httpMethod = ''POST'',
      headers = [(''Authorization'', ''Bearer '' @ token),
                 (''Content-Type'', ''application/json''),
                 (''User-Agent'', SGNL_USER_AGENT P)],
      body = Some (JObj [(''id'', sessionId), (''version'', version)])\<rparr>"

definition cancelSession_failure :: "jsval \<Rightarrow> response \<Rightarrow> js_error" where
  "cancelSession_failure sessionId r =
     (if status r = 429 then RetryableError ''Boundary API rate limit exceeded''
      else if status r = 401 then FatalError ''Invalid or expired authentication token''
      else if status r = 404
        then (case to_string sessionId of
                Inl e \<Rightarrow> e
              | Inr s \<Rightarrow> FatalError (''Session not found: '' @ s))
      else if status r = 409
        then FatalError (''Session conflict (may already be cancelled): '' @ responseText r)
      else if status r \<ge> 500 then RetryableError (''Boundary API server error: '' @ dec (status r))
      else FatalError (''Failed to cancel session: '' @ dec (status r) @ '' '' @ statusText r
                       @ '' - '' @ responseText r))"

definition cancelSession ::
  "platform \<Rightarrow> jsval \<Rightarrow> jsval \<Rightarrow> jsval \<Rightarrow> string \<Rightarrow> request list \<Rightarrow> (js_error + bool) \<times> request list" where
  "cancelSession P sessionId version token baseUrl sent =
     (case to_string sessionId of
        Inl e \<Rightarrow> (Inl e, sent)
      | Inr s \<Rightarrow>
     (case to_string token of
        Inl e \<Rightarrow> (Inl e, sent)
      | Inr t \<Rightarrow>
     (case fetch P (cancelSession_request P (cancel_url baseUrl s) t sessionId version) sent of
        (Inl e, sent') \<Rightarrow> (Inl e, sent')
      | (Inr r, sent') \<Rightarrow>
          if \<not> ok r then (Inl (cancelSession_failure sessionId r), sent')
          else (Inr True, sent'))))"

subsection \<open>The handlers\<close>

record ids =
  sessionId :: jsval
  authMethodId :: jsval

record cancel_result = ids +
  sessionCancelled :: bool
  cancelledAt :: string

record halt_result = ids +
  reason :: jsval
  haltedAt :: string
  cleanupCompleted :: bool

text \<open>
  The body of the \<open>try\<close> block of \<open>invoke\<close>. Each \<open>console_log\<close> is the
  \<open>console.log\<close> call at that place of the source, with the values its template
  interpolates.
\<close>

definition invoke_try ::
  "platform \<Rightarrow> params \<Rightarrow> context \<Rightarrow> request list \<Rightarrow> (js_error + cancel_result) \<times> request list" where
  "invoke_try P p c sent =
     (case validateInputs p of
        Inl e \<Rightarrow> (Inl e, sent)
      | Inr _ \<Rightarrow>
     (case console_log [param p ''sessionId''] of
        Inl e \<Rightarrow> (Inl e, sent)
      | Inr _ \<Rightarrow>
          if \<not> truthy (opt_chain (secrets c) ''BASIC_USERNAME'')
             \<or> \<not> truthy (opt_chain (secrets c) ''BASIC_PASSWORD'')
          then (Inl (FatalError ''Missing required secrets: BASIC_USERNAME and BASIC_PASSWORD''), sent)
          else
     (case getBaseURL p c of
        Inl m \<Rightarrow> (Inl (Error m), sent)
      | Inr baseUrl \<Rightarrow>
     (case console_log [param p ''authMethodId''] of
        Inl e \<Rightarrow> (Inl e, sent)
      | Inr _ \<Rightarrow>
     (case authenticate P (param p ''authMethodId'')
             (member (secrets c) ''BASIC_USERNAME'')
             (member (secrets c) ''BASIC_PASSWORD'') baseUrl sent of
        (Inl e, sent1) \<Rightarrow> (Inl e, sent1)
      | (Inr token, sent1) \<Rightarrow>
     (case console_log [param p ''sessionId''] of
        Inl e \<Rightarrow> (Inl e, sent1)
      | Inr _ \<Rightarrow>
     (case getSession P (param p ''sessionId'') token baseUrl sent1 of
        (Inl e, sent2) \<Rightarrow> (Inl e, sent2)
      | (Inr version, sent2) \<Rightarrow>
     (case console_log [param p ''sessionId'', version] of
        Inl e \<Rightarrow> (Inl e, sent2)
      | Inr _ \<Rightarrow>
     (case cancelSession P (param p ''sessionId'') version token baseUrl sent2 of
        (Inl e, sent3) \<Rightarrow> (Inl e, sent3)
      | (Inr _, sent3) \<Rightarrow>
     (case console_log [param p ''sessionId''] of
        Inl e \<Rightarrow> (Inl e, sent3)
      | Inr _ \<Rightarrow>
          (Inr \<lparr>sessionId = param p ''sessionId'',
                authMethodId = param p ''authMethodId'',
                sessionCancelled = True,
                cancelledAt = toISOString (clock P)\<rparr>, sent3)))))))))))"

text \<open>
  The \<open>catch\<close> clause: an instance of either class is thrown again as it is, anything
  else becomes a \<open>FatalError\<close>.
\<close>

definition invoke_catch :: "js_error \<Rightarrow> js_error" where
  "invoke_catch error =
     (if instanceof_RetryableError error \<or> instanceof_FatalError error then error
      else FatalError (''Unexpected error: '' @ message error))"

definition invoke ::
  "platform \<Rightarrow> params \<Rightarrow> context \<Rightarrow> request list \<Rightarrow> (js_error + cancel_result) \<times> request list" where
  "invoke P p c sent =
     (case invoke_try P p c sent of
        (Inl e, sent') \<Rightarrow> (Inl (invoke_catch e), sent')
      | (Inr result, sent') \<Rightarrow> (Inr result, sent'))"

text \<open>
  \<open>halt\<close> has no \<open>try\<close>: what the template of its \<open>console.log\<close> throws, it throws.
\<close>

definition halt ::
  "platform \<Rightarrow> params \<Rightarrow> context \<Rightarrow> request list \<Rightarrow> (js_error + halt_result) \<times> request list" where
  "halt P p c sent =
     (case console_log [param p ''reason''] of
        Inl e \<Rightarrow> (Inl e, sent)
      | Inr _ \<Rightarrow>
          (Inr \<lparr>sessionId = js_or (param p ''sessionId'') (JStr ''unknown''),
                authMethodId = js_or (param p ''authMethodId'') (JStr ''unknown''),
                reason = js_or (param p ''reason'') (JStr ''unknown''),
                haltedAt = toISOString (clock P),
                cleanupCompleted = True\<rparr>, sent))"

subsection \<open>Predicates used to state the properties\<close>

text \<open>
  An identifier is missing or blank when the property is absent, is not a string, or is a
  string that is empty after trimming white space.
\<close>

definition missing_or_blank :: "params \<Rightarrow> string \<Rightarrow> bool" where
  "missing_or_blank p k =
     (case p k of
        None \<Rightarrow> True
      | Some (JStr s) \<Rightarrow> trim s = []
      | Some _ \<Rightarrow> True)"

text \<open>The components of a time value are in range (the largest year of a time value is 275760).\<close>

definition valid_date :: "date \<Rightarrow> bool" where
  "valid_date d =
     (year d \<le> 275760 \<and> 1 \<le> month d \<and> month d \<le> 12 \<and> 1 \<le> day d \<and> day d \<le> 31
      \<and> hours d \<le> 23 \<and> minutes d \<le> 59 \<and> seconds d \<le> 59 \<and> milliseconds d \<le> 999)"

definition all_digits :: "string \<Rightarrow> bool" where
  "all_digits s = list_all (\<lambda>c. c \<in> set ''0123456789'') s"

definition number :: "string \<Rightarrow> nat" where
  "number s = foldl (\<lambda>n c. 10 * n + (of_char c - 48)) 0 s"

definition field :: "string \<Rightarrow> nat \<Rightarrow> nat \<Rightarrow> string" where
  "field s i k = take k (drop i s)"

text \<open>The part of an ISO 8601 timestamp after the year: \<open>-MM-DDTHH:mm:ss.sssZ\<close>.\<close>

definition iso8601_tail :: "string \<Rightarrow> bool" where
  "iso8601_tail t =
     (length t = 20
      \<and> t ! 0 = CHR ''-'' \<and> all_digits (field t 1 2)
      \<and> 1 \<le> number (field t 1 2) \<and> number (field t 1 2) \<le> 12
      \<and> t ! 3 = CHR ''-'' \<and> all_digits (field t 4 2)
      \<and> 1 \<le> number (field t 4 2) \<and> number (field t 4 2) \<le> 31
      \<and> t ! 6 = CHR ''T'' \<and> all_digits (field t 7 2) \<and> number (field t 7 2) \<le> 23
      \<and> t ! 9 = CHR '':'' \<and> all_digits (field t 10 2) \<and> number (field t 10 2) \<le> 59
      \<and> t ! 12 = CHR '':'' \<and> all_digits (field t 13 2) \<and> number (field t 13 2) \<le> 59
      \<and> t ! 15 = CHR ''.'' \<and> all_digits (field t 16 3)
      \<and> t ! 19 = CHR ''Z'')"

text \<open>A four-digit year, or a sign and six digits (the expanded form), then the rest.\<close>

definition is_iso8601 :: "string \<Rightarrow> bool" where
  "is_iso8601 s =
     (if starts_with ''+'' s
      then length s = 27 \<and> all_digits (field s 1 6) \<and> iso8601_tail (drop 7 s)
      else length s = 24 \<and> all_digits (field s 0 4) \<and> iso8601_tail (drop 4 s))"

text \<open>
  An invocation passes the checks that precede the network: both identifiers are valid, both
  secrets are there, and the base URL resolves to \<open>baseUrl\<close>.
\<close>

definition passes_checks :: "params \<Rightarrow> context \<Rightarrow> string \<Rightarrow> bool" where
  "passes_checks p c baseUrl =
     (validateInputs p = Inr ()
      \<and> truthy (opt_chain (secrets c) ''BASIC_USERNAME'')
      \<and> truthy (opt_chain (secrets c) ''BASIC_PASSWORD'')
      \<and> getBaseURL p c = Inr baseUrl)"

text \<open>A value that has a string form, and that form.\<close>

definition printable :: "jsval \<Rightarrow> bool" where
  "printable v = (case to_string v of Inl e \<Rightarrow> False | Inr s \<Rightarrow> True)"

definition text_of :: "jsval \<Rightarrow> string" where
  "text_of v = (case to_string v of Inl e \<Rightarrow> [] | Inr s \<Rightarrow> s)"

text \<open>
  The three requests of an invocation, with the arguments \<open>invoke\<close> passes (the two
  identifiers are strings then).
\<close>

definition authenticate_call :: "platform \<Rightarrow> params \<Rightarrow> context \<Rightarrow> string \<Rightarrow> request" where
  "authenticate_call P p c baseUrl =
     authenticate_request P (authenticate_url baseUrl (text_of (param p ''authMethodId'')))
       (member (secrets c) ''BASIC_USERNAME'') (member (secrets c) ''BASIC_PASSWORD'')"

definition getSession_call :: "platform \<Rightarrow> params \<Rightarrow> jsval \<Rightarrow> string \<Rightarrow> request" where
  "getSession_call P p token baseUrl =
     getSession_request P (session_url baseUrl (text_of (param p ''sessionId''))) (text_of token)"

definition cancelSession_call :: "platform \<Rightarrow> params \<Rightarrow> jsval \<Rightarrow> jsval \<Rightarrow> string \<Rightarrow> request" where
  "cancelSession_call P p version token baseUrl =
     cancelSession_request P (cancel_url baseUrl (text_of (param p ''sessionId''))) (text_of token)
       (param p ''sessionId'') version"

text \<open>\<open>contains w s\<close>: the text \<open>w\<close> occurs in \<open>s\<close>.\<close>

fun contains :: "string \<Rightarrow> string \<Rightarrow> bool" where
  "contains w [] = starts_with w []"
| "contains w (c # cs) = (starts_with w (c # cs) \<or> contains w cs)"

text \<open>What the module reads from the body of a response: the token, and the version.\<close>

definition token_of :: "response \<Rightarrow> jsval" where
  "token_of r = (case json r of Inl m \<Rightarrow> JUndefined | Inr d \<Rightarrow> member (member d ''attributes'') ''token'')"

definition version_of :: "response \<Rightarrow> jsval" where
  "version_of r = (case json r of Inl m \<Rightarrow> JUndefined | Inr d \<Rightarrow> member d ''version'')"

text \<open>The request carries the identifying client header.\<close>

definition user_agent :: "platform \<Rightarrow> request \<Rightarrow> bool" where
  "user_agent P rq = (map_of (headers rq) ''User-Agent'' = Some (SGNL_USER_AGENT P))"

text \<open>A response that signals a transient condition: rate limiting, or a server-side error.\<close>

definition transient :: "response \<Rightarrow> bool" where
  "transient r = (status r = 429 \<or> 500 \<le> status r)"

text \<open>
  What \<open>halt\<close> reports for a property of its parameters: the value when it is there and
  truthy, the string \<open>unknown\<close> otherwise.
\<close>

definition echoed_or_unknown :: "params \<Rightarrow> string \<Rightarrow> jsval" where
  "echoed_or_unknown p k =
     (case p k of
        None \<Rightarrow> JStr ''unknown''
      | Some v \<Rightarrow> if truthy v then v else JStr ''unknown'')"

subsection \<open>Concrete inputs, after tests/script.test.js\<close>

text \<open>A transport that answers the n-th request with the n-th answer of a script.\<close>

definition scripted :: "(string + response) list \<Rightarrow> request list \<Rightarrow> request \<Rightarrow> string + response" where
  "scripted answers sent rq =
     (if length sent < length answers then answers ! length sent else Inl ''fetch failed'')"

definition mockPlatform :: "(string + response) list \<Rightarrow> platform" where
  "mockPlatform answers =
     \<lparr>SGNL_USER_AGENT = ''SGNL-Action'',
      transport = scripted answers,
      clock = \<lparr>year = 2024, month = 1, day = 15, hours = 10, minutes = 30, seconds = 0,
               milliseconds = 0\<rparr>\<rparr>"

definition mockContext :: "context" where
  "mockContext =
     \<lparr>secrets = JObj [(''BASIC_USERNAME'', JStr ''testuser''), (''BASIC_PASSWORD'', JStr ''testpass'')],
      environment = [''ADDRESS'' \<mapsto> ''https://boundary.example.com'']\<rparr>"

definition mockParams :: params where
  "mockParams = [''sessionId'' \<mapsto> JStr ''s_1234567890'', ''authMethodId'' \<mapsto> JStr ''ampw_1234567890'']"

definition tokenResponse :: "jsval \<Rightarrow> response" where
  "tokenResponse t =
     \<lparr>status = 200, statusText = ''OK'', responseText = [],
      json = Inr (JObj [(''attributes'', JObj [(''token'', t)])])\<rparr>"

definition versionResponse :: "jsval \<Rightarrow> response" where
  "versionResponse v =
     \<lparr>status = 200, statusText = ''OK'', responseText = [],
      json = Inr (JObj [(''version'', v)])\<rparr>"

definition emptyResponse :: response where
  "emptyResponse = \<lparr>status = 200, statusText = ''OK'', responseText = [], json = Inr (JObj [])\<rparr>"

definition failureResponse :: "nat \<Rightarrow> response" where
  "failureResponse n =
     \<lparr>status = n, statusText = [], responseText = ''failed'', json = Inl ''Unexpected end of JSON input''\<rparr>"

text \<open>The transport of the test of the three requests: a token, version 1, an empty object.\<close>

definition mockFetch :: "(string + response) list" where
  "mockFetch = [Inr (tokenResponse (JStr ''mock-token'')), Inr (versionResponse (JNum 1)), Inr emptyResponse]"

definition mockAddress :: string where
  "mockAddress = ''https://boundary.example.com''"

section \<open>Properties\<close>

subsection \<open>Conversion to a string\<close>

lemma printable_to_string: "printable v \<Longrightarrow> to_string v = Inr (text_of v)"
  by (cases "to_string v") (simp_all add: printable_def text_of_def)

lemma printable_JStr [simp]: "printable (JStr s)" "text_of (JStr s) = s"
  by (simp_all add: printable_def text_of_def)

lemma to_string_Inr_printable: "to_string v = Inr s \<Longrightarrow> printable v \<and> text_of v = s"
  by (simp add: printable_def text_of_def)

text \<open>The conversion throws one error only, a \<open>TypeError\<close>.\<close>

lemma to_string_error:
  "to_string v = Inl e \<Longrightarrow> e = Error ''Cannot convert object to primitive value''"
  "to_strings vs = Inl e \<Longrightarrow> e = Error ''Cannot convert object to primitive value''"
  by (induction v and vs rule: to_string_to_strings.induct)
     (auto split: sum.splits if_splits)

lemma console_log_error:
  "console_log vs = Inl e \<Longrightarrow> e = Error ''Cannot convert object to primitive value''"
  by (induction vs) (auto split: sum.splits dest: to_string_error(1))

lemma console_log_one: "printable v \<Longrightarrow> console_log [v] = Inr ()"
  by (simp add: printable_to_string)

lemma console_log_two: "printable v \<Longrightarrow> printable w \<Longrightarrow> console_log [v, w] = Inr ()"
  by (simp add: printable_to_string)

lemma console_log_two_printable: "console_log [v, w] = Inr x \<Longrightarrow> printable w"
  by (auto simp: printable_def split: sum.splits)

subsection \<open>Values and the three requests\<close>

lemma fetch_Inr: "transport P sent rq = Inr r \<Longrightarrow> fetch P rq sent = (Inr r, sent @ [rq])"
  by (simp add: fetch_def)

lemma fetch_Inl: "transport P sent rq = Inl m \<Longrightarrow> fetch P rq sent = (Inl (Error m), sent @ [rq])"
  by (simp add: fetch_def)

lemma member_nullish: "nullish v \<Longrightarrow> member v k = JUndefined"
  by (auto simp: nullish_def)

lemma opt_chain_member: "opt_chain v k = member v k"
  by (simp add: opt_chain_def member_nullish)

lemma get_prop_member: "truthy (member v k) \<Longrightarrow> get_prop v k = Inr (member v k)"
  by (cases "nullish v") (simp_all add: get_prop_def member_nullish)

lemma member_token_not_nullish:
  "truthy (member (member d ''attributes'') ''token'') \<Longrightarrow> \<not> nullish d"
  by (auto simp: nullish_def)

lemma authenticate_rejected:
  "to_string a = Inr aid \<Longrightarrow>
   transport P sent (authenticate_request P (authenticate_url b aid) u pw) = Inl m \<Longrightarrow>
   authenticate P a u pw b sent =
     (Inl (Error m), sent @ [authenticate_request P (authenticate_url b aid) u pw])"
  by (simp add: authenticate_def fetch_Inl)

lemma authenticate_not_ok:
  "to_string a = Inr aid \<Longrightarrow>
   transport P sent (authenticate_request P (authenticate_url b aid) u pw) = Inr r \<Longrightarrow> \<not> ok r \<Longrightarrow>
   authenticate P a u pw b sent =
     (Inl (authenticate_failure r), sent @ [authenticate_request P (authenticate_url b aid) u pw])"
  by (simp add: authenticate_def fetch_Inr)

lemma authenticate_ok:
  "to_string a = Inr aid \<Longrightarrow>
   transport P sent (authenticate_request P (authenticate_url b aid) u pw) = Inr r \<Longrightarrow> ok r \<Longrightarrow>
   json r = Inr d \<Longrightarrow> truthy (member (member d ''attributes'') ''token'') \<Longrightarrow>
   authenticate P a u pw b sent =
     (Inr (member (member d ''attributes'') ''token''),
      sent @ [authenticate_request P (authenticate_url b aid) u pw])"
  by (simp add: authenticate_def fetch_Inr get_prop_def member_token_not_nullish opt_chain_member)

lemma getSession_rejected:
  "to_string s = Inr sid \<Longrightarrow> to_string t = Inr tok \<Longrightarrow>
   transport P sent (getSession_request P (session_url b sid) tok) = Inl m \<Longrightarrow>
   getSession P s t b sent = (Inl (Error m), sent @ [getSession_request P (session_url b sid) tok])"
  by (simp add: getSession_def fetch_Inl)

lemma getSession_not_ok:
  "to_string s = Inr sid \<Longrightarrow> to_string t = Inr tok \<Longrightarrow>
   transport P sent (getSession_request P (session_url b sid) tok) = Inr r \<Longrightarrow> \<not> ok r \<Longrightarrow>
   getSession P s t b sent =
     (Inl (getSession_failure s r), sent @ [getSession_request P (session_url b sid) tok])"
  by (simp add: getSession_def fetch_Inr)

lemma getSession_ok:
  "to_string s = Inr sid \<Longrightarrow> to_string t = Inr tok \<Longrightarrow>
   transport P sent (getSession_request P (session_url b sid) tok) = Inr r \<Longrightarrow> ok r \<Longrightarrow>
   json r = Inr d \<Longrightarrow> truthy (member d ''version'') \<Longrightarrow>
   getSession P s t b sent =
     (Inr (member d ''version''), sent @ [getSession_request P (session_url b sid) tok])"
  by (simp add: getSession_def fetch_Inr get_prop_member)

lemma cancelSession_rejected:
  "to_string s = Inr sid \<Longrightarrow> to_string t = Inr tok \<Longrightarrow>
   transport P sent (cancelSession_request P (cancel_url b sid) tok s v) = Inl m \<Longrightarrow>
   cancelSession P s v t b sent =
     (Inl (Error m), sent @ [cancelSession_request P (cancel_url b sid) tok s v])"
  by (simp add: cancelSession_def fetch_Inl)

lemma cancelSession_not_ok:
  "to_string s = Inr sid \<Longrightarrow> to_string t = Inr tok \<Longrightarrow>
   transport P sent (cancelSession_request P (cancel_url b sid) tok s v) = Inr r \<Longrightarrow> \<not> ok r \<Longrightarrow>
   cancelSession P s v t b sent =
     (Inl (cancelSession_failure s r), sent @ [cancelSession_request P (cancel_url b sid) tok s v])"
  by (simp add: cancelSession_def fetch_Inr)

lemma cancelSession_ok:
  "to_string s = Inr sid \<Longrightarrow> to_string t = Inr tok \<Longrightarrow>
   transport P sent (cancelSession_request P (cancel_url b sid) tok s v) = Inr r \<Longrightarrow> ok r \<Longrightarrow>
   cancelSession P s v t b sent =
     (Inr True, sent @ [cancelSession_request P (cancel_url b sid) tok s v])"
  by (simp add: cancelSession_def fetch_Inr)

lemma invoke_catch_simps [simp]:
  "invoke_catch (RetryableError m) = RetryableError m"
  "invoke_catch (FatalError m) = FatalError m"
  "invoke_catch (Error m) = FatalError (''Unexpected error: '' @ m)"
  by (simp_all add: invoke_catch_def)

text \<open>
  A function that throws before its request sends nothing and throws the \<open>TypeError\<close>;
  otherwise it sends exactly its one request.
\<close>

lemma authenticate_sent:
  "authenticate P a u pw b s = (out, s') \<Longrightarrow>
   (s' = s \<and> out = Inl (Error ''Cannot convert object to primitive value'') \<and> \<not> printable a)
   \<or> (printable a \<and> s' = s @ [authenticate_request P (authenticate_url b (text_of a)) u pw])"
  by (auto simp: authenticate_def fetch_def printable_def text_of_def
      split: sum.splits if_splits dest: to_string_error(1))

lemma getSession_sent:
  "getSession P i t b s = (out, s') \<Longrightarrow>
   (s' = s \<and> out = Inl (Error ''Cannot convert object to primitive value'')
      \<and> \<not> (printable i \<and> printable t))
   \<or> (printable i \<and> printable t
       \<and> s' = s @ [getSession_request P (session_url b (text_of i)) (text_of t)])"
  by (auto simp: getSession_def fetch_def printable_def text_of_def
      split: sum.splits if_splits dest: to_string_error(1))

lemma cancelSession_sent:
  "cancelSession P i v t b s = (out, s') \<Longrightarrow>
   (s' = s \<and> out = Inl (Error ''Cannot convert object to primitive value'')
      \<and> \<not> (printable i \<and> printable t))
   \<or> (printable i \<and> printable t
       \<and> s' = s @ [cancelSession_request P (cancel_url b (text_of i)) (text_of t) i v])"
  by (auto simp: cancelSession_def fetch_def printable_def text_of_def
      split: sum.splits if_splits dest: to_string_error(1))

text \<open>A function that returns was answered with a 2xx response that carries what it reads.\<close>

lemma authenticate_Inr:
  assumes "authenticate P a u pw b s = (Inr t, s')"
  shows "printable a \<and>
         (\<exists>r. transport P s (authenticate_request P (authenticate_url b (text_of a)) u pw) = Inr r
               \<and> ok r \<and> truthy (token_of r) \<and> t = token_of r)"
proof (cases "to_string a")
  case (Inl e)
  with assms show ?thesis by (simp add: authenticate_def)
next
  case a: (Inr aid)
  then have pa: "printable a" "text_of a = aid" by (simp_all add: printable_def text_of_def)
  show ?thesis
  proof (cases "transport P s (authenticate_request P (authenticate_url b aid) u pw)")
    case (Inl m)
    with assms a show ?thesis by (simp add: authenticate_rejected)
  next
    case (Inr r)
    with assms a have "ok r \<and> truthy (token_of r) \<and> t = token_of r"
      by (auto simp: authenticate_def fetch_def get_prop_def token_of_def opt_chain_member
          split: sum.splits if_splits)
    with Inr pa show ?thesis by simp
  qed
qed

lemma getSession_Inr:
  assumes "getSession P i t b s = (Inr v, s')"
  shows "printable i \<and> printable t \<and>
         (\<exists>r. transport P s (getSession_request P (session_url b (text_of i)) (text_of t)) = Inr r
               \<and> ok r \<and> truthy (version_of r) \<and> v = version_of r)"
proof (cases "to_string i")
  case (Inl e)
  with assms show ?thesis by (simp add: getSession_def)
next
  case i: (Inr sid)
  show ?thesis
  proof (cases "to_string t")
    case (Inl e)
    with assms i show ?thesis by (simp add: getSession_def)
  next
    case t: (Inr tok)
    from i t have pr: "printable i" "text_of i = sid" "printable t" "text_of t = tok"
      by (simp_all add: printable_def text_of_def)
    show ?thesis
    proof (cases "transport P s (getSession_request P (session_url b sid) tok)")
      case (Inl m)
      with assms i t show ?thesis by (simp add: getSession_rejected)
    next
      case (Inr r)
      with assms i t have "ok r \<and> truthy (version_of r) \<and> v = version_of r"
        by (auto simp: getSession_def fetch_def get_prop_def version_of_def
            split: sum.splits if_splits)
      with Inr pr show ?thesis by simp
    qed
  qed
qed

lemma cancelSession_Inr:
  assumes "cancelSession P i v t b s = (Inr x, s')"
  shows "printable i \<and> printable t \<and>
         (\<exists>r. transport P s (cancelSession_request P (cancel_url b (text_of i)) (text_of t) i v) = Inr r
               \<and> ok r)"
  using assms
  by (auto simp: cancelSession_def fetch_def printable_def text_of_def split: sum.splits if_splits)

subsection \<open>The timestamp\<close>

lemma digit_cases:
  "a < 10 \<Longrightarrow>
   a = 0 \<or> a = 1 \<or> a = 2 \<or> a = 3 \<or> a = 4 \<or> a = 5 \<or> a = 6 \<or> a = 7 \<or> a = 8 \<or> (a::nat) = 9"
  by arith

lemma digit_char: "a < 10 \<Longrightarrow> digit a \<in> set ''0123456789''"
  unfolding digit_def by (rule nth_mem) simp

lemma digit_value: "a < 10 \<Longrightarrow> of_char (digit a) - 48 = a"
  by (drule digit_cases) (auto simp: digit_def)

lemma length_pad: "length (pad k n) = k"
  by (induction k arbitrary: n) simp_all

lemma all_digits_pad: "all_digits (pad k n)"
  by (induction k arbitrary: n) (simp_all add: all_digits_def digit_char del: set_simps)

lemma pad2: "pad 2 n = [digit (n div 10 mod 10), digit (n mod 10)]"
  by (simp add: numeral_2_eq_2)

lemma all_digits_two: "all_digits [digit (n div 10 mod 10), digit (n mod 10)]"
  using all_digits_pad [of 2 n] by (simp only: pad2)

lemma number_two: "n \<le> 99 \<Longrightarrow> number [digit (n div 10 mod 10), digit (n mod 10)] = n"
  by (simp add: number_def digit_value)

lemma four: "(4::nat) = Suc (Suc (Suc (Suc 0)))"
  by simp

lemma six: "(6::nat) = Suc (Suc (Suc (Suc (Suc (Suc 0)))))"
  by simp

lemma pad4: "\<exists>a b c e. pad 4 n = [a, b, c, e]"
  by (simp only: four pad.simps append.simps) blast

lemma pad6: "\<exists>a b c e f g. pad 6 n = [a, b, c, e, f, g]"
  by (simp only: six pad.simps append.simps) blast

lemma iso8601_tail_length: "iso8601_tail t \<Longrightarrow> length t = 20"
  unfolding iso8601_tail_def by (elim conjE)

lemma toISOString_tail:
  assumes "valid_date d"
  shows "iso8601_tail (''-'' @ pad 2 (month d) @ ''-'' @ pad 2 (day d)
     @ ''T'' @ pad 2 (hours d) @ '':'' @ pad 2 (minutes d) @ '':'' @ pad 2 (seconds d)
     @ ''.'' @ pad 3 (milliseconds d) @ ''Z'')"
proof -
  have ms: "length (pad 3 (milliseconds d)) = 3" "all_digits (pad 3 (milliseconds d))"
    by (simp_all only: length_pad all_digits_pad)
  obtain x y z where xyz: "pad 3 (milliseconds d) = [x, y, z]"
    using ms(1) by (auto simp: length_Suc_conv numeral_3_eq_3)
  show ?thesis
    using assms ms(2)
    by (simp add: iso8601_tail_def valid_date_def field_def pad2 xyz all_digits_two number_two)
qed

text \<open>\<open>toISOString\<close> prints a time value whose components are in range as an ISO 8601 timestamp.\<close>

lemma toISOString_valid:
  assumes "valid_date d"
  shows "is_iso8601 (toISOString d)"
proof -
  define t where "t = ''-'' @ pad 2 (month d) @ ''-'' @ pad 2 (day d)
     @ ''T'' @ pad 2 (hours d) @ '':'' @ pad 2 (minutes d) @ '':'' @ pad 2 (seconds d)
     @ ''.'' @ pad 3 (milliseconds d) @ ''Z''"
  have t: "iso8601_tail t" unfolding t_def using assms by (rule toISOString_tail)
  have len: "length t = 20" using t by (rule iso8601_tail_length)
  show ?thesis
  proof (cases "year d \<le> 9999")
    case True
    obtain a b c e where y: "pad 4 (year d) = [a, b, c, e]"
      using pad4 by blast
    have "all_digits [a, b, c, e]" using all_digits_pad [of 4 "year d"] by (simp only: y)
    moreover from this have "a \<noteq> CHR ''+''" by (auto simp: all_digits_def)
    moreover have "toISOString d = [a, b, c, e] @ t"
      using True by (simp add: toISOString_def y t_def)
    ultimately show ?thesis using t len by (simp add: is_iso8601_def field_def)
  next
    case False
    obtain a b c e f g where y: "pad 6 (year d) = [a, b, c, e, f, g]"
      using pad6 by blast
    have "all_digits [a, b, c, e, f, g]" using all_digits_pad [of 6 "year d"] by (simp only: y)
    moreover have "toISOString d = CHR ''+'' # [a, b, c, e, f, g] @ t"
      using False by (simp add: toISOString_def y t_def)
    ultimately show ?thesis using t len by (simp add: is_iso8601_def field_def)
  qed
qed

subsection \<open>The invocation past its checks\<close>

lemma passes_checks_ids:
  assumes "passes_checks p c b"
  shows "\<exists>s a. param p ''sessionId'' = JStr s \<and> param p ''authMethodId'' = JStr a"
proof -
  from assms have v: "validateInputs p = Inr ()" by (simp add: passes_checks_def)
  then have "\<exists>s. param p ''sessionId'' = JStr s"
    by (cases "param p ''sessionId''") (auto simp: validateInputs_def invalid_id_def split: if_splits)
  moreover from v have "\<exists>a. param p ''authMethodId'' = JStr a"
    by (cases "param p ''authMethodId''") (auto simp: validateInputs_def invalid_id_def split: if_splits)
  ultimately show ?thesis by blast
qed

text \<open>
  Past the checks that precede the network the \<open>try\<close> block is the three requests, and
  the \<open>console.log\<close> that prints the version between the second and the third; the other
  \<open>console.log\<close> calls print an identifier, which is a string.
\<close>

lemma invoke_try_calls:
  assumes "passes_checks p c b"
  shows "invoke_try P p c sent =
     (case authenticate P (param p ''authMethodId'') (member (secrets c) ''BASIC_USERNAME'')
             (member (secrets c) ''BASIC_PASSWORD'') b sent of
        (Inl e, sent1) \<Rightarrow> (Inl e, sent1)
      | (Inr token, sent1) \<Rightarrow>
          (case getSession P (param p ''sessionId'') token b sent1 of
             (Inl e, sent2) \<Rightarrow> (Inl e, sent2)
           | (Inr version, sent2) \<Rightarrow>
               (case console_log [param p ''sessionId'', version] of
                  Inl e \<Rightarrow> (Inl e, sent2)
                | Inr _ \<Rightarrow>
                    (case cancelSession P (param p ''sessionId'') version token b sent2 of
                       (Inl e, sent3) \<Rightarrow> (Inl e, sent3)
                     | (Inr _, sent3) \<Rightarrow>
                         (Inr \<lparr>sessionId = param p ''sessionId'',
                               authMethodId = param p ''authMethodId'',
                               sessionCancelled = True,
                               cancelledAt = toISOString (clock P)\<rparr>, sent3)))))"
proof -
  from passes_checks_ids [OF assms] obtain s a
    where ids: "param p ''sessionId'' = JStr s" "param p ''authMethodId'' = JStr a" by blast
  from assms show ?thesis
    unfolding invoke_try_def passes_checks_def ids
    by (simp split: prod.splits sum.splits)
qed

lemma authenticate_call_rejected:
  assumes "passes_checks p c b" and "transport P sent (authenticate_call P p c b) = Inl m"
  shows "authenticate P (param p ''authMethodId'') (member (secrets c) ''BASIC_USERNAME'')
           (member (secrets c) ''BASIC_PASSWORD'') b sent
         = (Inl (Error m), sent @ [authenticate_call P p c b])"
proof -
  from passes_checks_ids [OF assms(1)] obtain a where a: "param p ''authMethodId'' = JStr a"
    by blast
  have "to_string (param p ''authMethodId'') = Inr a" by (simp add: a)
  from authenticate_rejected [OF this] assms(2) show ?thesis
    by (simp add: authenticate_call_def a)
qed

lemma authenticate_call_not_ok:
  assumes "passes_checks p c b" and "transport P sent (authenticate_call P p c b) = Inr r"
    and "\<not> ok r"
  shows "authenticate P (param p ''authMethodId'') (member (secrets c) ''BASIC_USERNAME'')
           (member (secrets c) ''BASIC_PASSWORD'') b sent
         = (Inl (authenticate_failure r), sent @ [authenticate_call P p c b])"
proof -
  from passes_checks_ids [OF assms(1)] obtain a where a: "param p ''authMethodId'' = JStr a"
    by blast
  have "to_string (param p ''authMethodId'') = Inr a" by (simp add: a)
  from authenticate_not_ok [OF this] assms(2,3) show ?thesis
    by (simp add: authenticate_call_def a)
qed

lemma authenticate_call_ok:
  assumes "passes_checks p c b"
    and "transport P sent (authenticate_call P p c b) = Inr r" "ok r" "truthy (token_of r)"
  shows "authenticate P (param p ''authMethodId'') (member (secrets c) ''BASIC_USERNAME'')
           (member (secrets c) ''BASIC_PASSWORD'') b sent
         = (Inr (token_of r), sent @ [authenticate_call P p c b])"
proof -
  from passes_checks_ids [OF assms(1)] obtain a where a: "param p ''authMethodId'' = JStr a"
    by blast
  have s: "to_string (param p ''authMethodId'') = Inr a" by (simp add: a)
  from assms(4) obtain d where d: "json r = Inr d"
    by (cases "json r") (simp_all add: token_of_def)
  with assms(4) have t: "truthy (member (member d ''attributes'') ''token'')"
    by (simp add: token_of_def)
  from assms(2) have
    "transport P sent (authenticate_request P (authenticate_url b a) (member (secrets c) ''BASIC_USERNAME'')
       (member (secrets c) ''BASIC_PASSWORD'')) = Inr r"
    by (simp add: authenticate_call_def a)
  from authenticate_ok [OF s this assms(3) d t] show ?thesis
    by (simp add: token_of_def d authenticate_call_def a)
qed

lemma getSession_call_rejected:
  assumes "passes_checks p c b" and "printable t"
    and "transport P sent (getSession_call P p t b) = Inl m"
  shows "getSession P (param p ''sessionId'') t b sent
         = (Inl (Error m), sent @ [getSession_call P p t b])"
proof -
  from passes_checks_ids [OF assms(1)] obtain s where s: "param p ''sessionId'' = JStr s"
    by blast
  have "to_string (param p ''sessionId'') = Inr s" by (simp add: s)
  from getSession_rejected [OF this printable_to_string [OF assms(2)]] assms(3) show ?thesis
    by (simp add: getSession_call_def s)
qed

lemma getSession_call_not_ok:
  assumes "passes_checks p c b" and "printable t"
    and "transport P sent (getSession_call P p t b) = Inr r" "\<not> ok r"
  shows "getSession P (param p ''sessionId'') t b sent
         = (Inl (getSession_failure (param p ''sessionId'') r), sent @ [getSession_call P p t b])"
proof -
  from passes_checks_ids [OF assms(1)] obtain s where s: "param p ''sessionId'' = JStr s"
    by blast
  have "to_string (param p ''sessionId'') = Inr s" by (simp add: s)
  from getSession_not_ok [OF this printable_to_string [OF assms(2)]] assms(3,4) show ?thesis
    by (simp add: getSession_call_def s)
qed

lemma getSession_call_ok:
  assumes "passes_checks p c b" and "printable t"
    and "transport P sent (getSession_call P p t b) = Inr r" "ok r" "truthy (version_of r)"
  shows "getSession P (param p ''sessionId'') t b sent
         = (Inr (version_of r), sent @ [getSession_call P p t b])"
proof -
  from passes_checks_ids [OF assms(1)] obtain s where s: "param p ''sessionId'' = JStr s"
    by blast
  have i: "to_string (param p ''sessionId'') = Inr s" by (simp add: s)
  from assms(5) obtain d where d: "json r = Inr d"
    by (cases "json r") (simp_all add: version_of_def)
  with assms(5) have v: "truthy (member d ''version'')"
    by (simp add: version_of_def)
  from assms(3) have "transport P sent (getSession_request P (session_url b s) (text_of t)) = Inr r"
    by (simp add: getSession_call_def s)
  from getSession_ok [OF i printable_to_string [OF assms(2)] this assms(4) d v] show ?thesis
    by (simp add: version_of_def d getSession_call_def s)
qed

lemma cancelSession_call_rejected:
  assumes "passes_checks p c b" and "printable t"
    and "transport P sent (cancelSession_call P p v t b) = Inl m"
  shows "cancelSession P (param p ''sessionId'') v t b sent
         = (Inl (Error m), sent @ [cancelSession_call P p v t b])"
proof -
  from passes_checks_ids [OF assms(1)] obtain s where s: "param p ''sessionId'' = JStr s"
    by blast
  have "to_string (param p ''sessionId'') = Inr s" by (simp add: s)
  from cancelSession_rejected [OF this printable_to_string [OF assms(2)]] assms(3) show ?thesis
    by (simp add: cancelSession_call_def s)
qed

lemma cancelSession_call_not_ok:
  assumes "passes_checks p c b" and "printable t"
    and "transport P sent (cancelSession_call P p v t b) = Inr r" "\<not> ok r"
  shows "cancelSession P (param p ''sessionId'') v t b sent
         = (Inl (cancelSession_failure (param p ''sessionId'') r), sent @ [cancelSession_call P p v t b])"
proof -
  from passes_checks_ids [OF assms(1)] obtain s where s: "param p ''sessionId'' = JStr s"
    by blast
  have "to_string (param p ''sessionId'') = Inr s" by (simp add: s)
  from cancelSession_not_ok [OF this printable_to_string [OF assms(2)]] assms(3,4) show ?thesis
    by (simp add: cancelSession_call_def s)
qed

lemma cancelSession_call_ok:
  assumes "passes_checks p c b" and "printable t"
    and "transport P sent (cancelSession_call P p v t b) = Inr r" "ok r"
  shows "cancelSession P (param p ''sessionId'') v t b sent
         = (Inr True, sent @ [cancelSession_call P p v t b])"
proof -
  from passes_checks_ids [OF assms(1)] obtain s where s: "param p ''sessionId'' = JStr s"
    by blast
  have "to_string (param p ''sessionId'') = Inr s" by (simp add: s)
  from cancelSession_ok [OF this printable_to_string [OF assms(2)]] assms(3,4) show ?thesis
    by (simp add: cancelSession_call_def s)
qed

lemma console_log_version:
  assumes "passes_checks p c b" and "printable v"
  shows "console_log [param p ''sessionId'', v] = Inr ()"
proof -
  from passes_checks_ids [OF assms(1)] obtain s where s: "param p ''sessionId'' = JStr s"
    by blast
  from assms(2) show ?thesis by (simp add: s printable_to_string)
qed

lemma user_agent_calls:
  "user_agent P (authenticate_call P p c b)"
  "user_agent P (getSession_call P p t b)"
  "user_agent P (cancelSession_call P p v t b)"
  by (simp_all add: user_agent_def authenticate_call_def getSession_call_def cancelSession_call_def
      authenticate_request_def getSession_request_def cancelSession_request_def)

text \<open>What \<open>invoke\<close> throws when one of the three functions throws.\<close>

lemma invoke_authenticate_throws:
  assumes "passes_checks p c b"
    and "authenticate P (param p ''authMethodId'') (member (secrets c) ''BASIC_USERNAME'')
             (member (secrets c) ''BASIC_PASSWORD'') b sent = (Inl e, sent1)"
  shows "invoke P p c sent = (Inl (invoke_catch e), sent1)"
  by (simp add: invoke_def invoke_try_calls [OF assms(1)] assms(2))

lemma invoke_getSession_throws:
  assumes "passes_checks p c b"
    and "transport P sent (authenticate_call P p c b) = Inr r1" "ok r1" "truthy (token_of r1)"
    and "getSession P (param p ''sessionId'') (token_of r1) b (sent @ [authenticate_call P p c b])
           = (Inl e, sent2)"
  shows "invoke P p c sent = (Inl (invoke_catch e), sent2)"
  by (simp add: invoke_def invoke_try_calls [OF assms(1)]
      authenticate_call_ok [OF assms(1-4)] assms(5))

lemma invoke_cancelSession_throws:
  assumes "passes_checks p c b"
    and "transport P sent (authenticate_call P p c b) = Inr r1" "ok r1" "truthy (token_of r1)"
      "printable (token_of r1)"
    and "transport P (sent @ [authenticate_call P p c b]) (getSession_call P p (token_of r1) b) = Inr r2"
      "ok r2" "truthy (version_of r2)" "printable (version_of r2)"
    and "cancelSession P (param p ''sessionId'') (version_of r2) (token_of r1) b
           (sent @ [authenticate_call P p c b, getSession_call P p (token_of r1) b]) = (Inl e, sent3)"
  shows "invoke P p c sent = (Inl (invoke_catch e), sent3)"
  using assms(10) getSession_call_ok [OF assms(1) assms(5) assms(6-8)]
    console_log_version [OF assms(1) assms(9)]
  by (simp add: invoke_def invoke_try_calls [OF assms(1)] authenticate_call_ok [OF assms(1-4)])

subsection \<open>The successful invocation\<close>

text \<open>
  C1. When the invocation passes its checks and the transport answers each of the three
  calls with a 2xx response (the first carrying a token and the second a version, each with a
  string form, as a call that is followed by another must), exactly three requests are sent,
  in the order authenticate, read session, cancel; each carries the \<open>User-Agent\<close> header of
  the client; and the result is the record of the two identifiers of the parameters,
  \<open>sessionCancelled = true\<close> and \<open>cancelledAt\<close> the clock's time printed by
  \<open>toISOString\<close>, which is an ISO 8601 timestamp (the clock reads a time value, whose
  components are in range).
\<close>

theorem invoke_cancels_session:
  assumes "passes_checks p c b"
    and "transport P sent (authenticate_call P p c b) = Inr r1" "ok r1"
      "truthy (token_of r1)" "printable (token_of r1)"
    and "transport P (sent @ [authenticate_call P p c b]) (getSession_call P p (token_of r1) b) = Inr r2"
      "ok r2" "truthy (version_of r2)" "printable (version_of r2)"
    and "transport P (sent @ [authenticate_call P p c b, getSession_call P p (token_of r1) b])
           (cancelSession_call P p (version_of r2) (token_of r1) b) = Inr r3" "ok r3"
    and "valid_date (clock P)"
  shows "invoke P p c sent =
           (Inr \<lparr>sessionId = param p ''sessionId'', authMethodId = param p ''authMethodId'',
                 sessionCancelled = True, cancelledAt = toISOString (clock P)\<rparr>,
            sent @ [authenticate_call P p c b, getSession_call P p (token_of r1) b,
                    cancelSession_call P p (version_of r2) (token_of r1) b])
         \<and> user_agent P (authenticate_call P p c b)
         \<and> user_agent P (getSession_call P p (token_of r1) b)
         \<and> user_agent P (cancelSession_call P p (version_of r2) (token_of r1) b)
         \<and> is_iso8601 (toISOString (clock P))"
proof -
  note a = authenticate_call_ok [OF assms(1-4)]
  note g = getSession_call_ok [OF assms(1) assms(5) assms(6-8)]
  note l = console_log_version [OF assms(1) assms(9)]
  have k: "cancelSession P (param p ''sessionId'') (version_of r2) (token_of r1) b
             (sent @ [authenticate_call P p c b, getSession_call P p (token_of r1) b])
           = (Inr True, (sent @ [authenticate_call P p c b, getSession_call P p (token_of r1) b])
                 @ [cancelSession_call P p (version_of r2) (token_of r1) b])"
    using assms(1) assms(5) assms(10,11) by (rule cancelSession_call_ok)
  from passes_checks_ids [OF assms(1)] obtain s where "param p ''sessionId'' = JStr s"
    by blast
  then have l': "console_log [param p ''sessionId''] = Inr ()" by simp
  have "invoke_try P p c sent =
           (Inr \<lparr>sessionId = param p ''sessionId'', authMethodId = param p ''authMethodId'',
                 sessionCancelled = True, cancelledAt = toISOString (clock P)\<rparr>,
            sent @ [authenticate_call P p c b, getSession_call P p (token_of r1) b,
                    cancelSession_call P p (version_of r2) (token_of r1) b])"
    using g k l by (simp add: invoke_try_calls [OF assms(1)] a)
  then show ?thesis
    using assms(12) by (simp add: invoke_def user_agent_calls toISOString_valid)
qed

lemma invoke_try_Inr_checks:
  assumes "invoke_try P p c sent = (Inr res, sent')"
  shows "\<exists>b. passes_checks p c b"
  using assms
  by (auto simp: invoke_try_def passes_checks_def split: sum.splits if_splits)

text \<open>
  Conversely, an invocation that returns a result passed the checks and had each of its three
  calls answered with a 2xx response, the first with a token and the second with a version,
  each with a string form: the hypotheses above describe every successful invocation, and
  each sends three requests.
\<close>

lemma invoke_returns_only_if:
  assumes "invoke P p c sent = (Inr res, sent')"
  shows "\<exists>b r1 r2 r3.
           passes_checks p c b
         \<and> transport P sent (authenticate_call P p c b) = Inr r1 \<and> ok r1
         \<and> truthy (token_of r1) \<and> printable (token_of r1)
         \<and> transport P (sent @ [authenticate_call P p c b]) (getSession_call P p (token_of r1) b) = Inr r2
         \<and> ok r2 \<and> truthy (version_of r2) \<and> printable (version_of r2)
         \<and> transport P (sent @ [authenticate_call P p c b, getSession_call P p (token_of r1) b])
              (cancelSession_call P p (version_of r2) (token_of r1) b) = Inr r3
         \<and> ok r3
         \<and> sent' = sent @ [authenticate_call P p c b, getSession_call P p (token_of r1) b,
                           cancelSession_call P p (version_of r2) (token_of r1) b]"
proof -
  from assms have t: "invoke_try P p c sent = (Inr res, sent')"
    by (auto simp: invoke_def split: prod.splits sum.splits)
  then obtain b where b: "passes_checks p c b"
    using invoke_try_Inr_checks by blast
  note calls = invoke_try_calls [OF b, of P sent]
  obtain o1 s1 where a: "authenticate P (param p ''authMethodId'') (member (secrets c) ''BASIC_USERNAME'')
             (member (secrets c) ''BASIC_PASSWORD'') b sent = (o1, s1)"
    by (cases "authenticate P (param p ''authMethodId'') (member (secrets c) ''BASIC_USERNAME'')
             (member (secrets c) ''BASIC_PASSWORD'') b sent")
  from a calls t obtain token where o1: "o1 = Inr token"
    by (cases o1) simp_all
  from authenticate_Inr [OF a [unfolded o1]] obtain r1
    where r1: "transport P sent (authenticate_call P p c b) = Inr r1" "ok r1" "truthy (token_of r1)"
      and tok: "token = token_of r1"
    unfolding authenticate_call_def by blast
  from authenticate_call_ok [OF b r1] a have s1: "s1 = sent @ [authenticate_call P p c b]"
    by simp
  obtain o2 s2 where g: "getSession P (param p ''sessionId'') token b s1 = (o2, s2)"
    by (cases "getSession P (param p ''sessionId'') token b s1")
  from a o1 g calls t obtain version where o2: "o2 = Inr version"
    by (cases o2) simp_all
  from getSession_Inr [OF g [unfolded o2]] obtain r2
    where pt: "printable token"
      and r2: "transport P s1 (getSession_call P p token b) = Inr r2" "ok r2" "truthy (version_of r2)"
      and ver: "version = version_of r2"
    unfolding getSession_call_def by blast
  from getSession_call_ok [OF b pt r2] g have s2: "s2 = s1 @ [getSession_call P p token b]"
    by simp
  obtain l where l: "console_log [param p ''sessionId'', version] = l"
    by simp
  from a o1 g o2 l calls t obtain u where lu: "l = Inr u"
    by (cases l) simp_all
  from l lu have pv: "printable version"
    using console_log_two_printable by blast
  obtain o3 s3 where k: "cancelSession P (param p ''sessionId'') version token b s2 = (o3, s3)"
    by (cases "cancelSession P (param p ''sessionId'') version token b s2")
  from a o1 g o2 l lu k calls t obtain x where o3: "o3 = Inr x" and s3: "s3 = sent'"
    by (cases o3) simp_all
  from cancelSession_Inr [OF k [unfolded o3]] obtain r3
    where r3: "transport P s2 (cancelSession_call P p version token b) = Inr r3" "ok r3"
    unfolding cancelSession_call_def by blast
  from cancelSession_call_ok [OF b pt r3] k have s3': "s3 = s2 @ [cancelSession_call P p version token b]"
    by simp
  from b r1 r2 r3 s1 s2 s3 s3' tok ver pt pv show ?thesis
    by (intro exI [of _ b] exI [of _ r1] exI [of _ r2] exI [of _ r3]) simp
qed

subsection \<open>Validation of the identifiers\<close>

lemma trim_Nil: "trim [] = []"
  by (simp add: trim_def)

lemma invalid_id_param: "invalid_id (param p k) = missing_or_blank p k"
proof (cases "p k")
  case None
  then show ?thesis by (simp add: invalid_id_def param_def missing_or_blank_def)
next
  case (Some v)
  then show ?thesis
    by (cases v) (auto simp: invalid_id_def param_def missing_or_blank_def trim_Nil)
qed

text \<open>
  C2. When \<open>sessionId\<close> or \<open>authMethodId\<close> is absent, is not a string, or is blank after
  trimming, \<open>invoke\<close> throws a \<open>FatalError\<close> whose message names the field (\<open>sessionId\<close>
  first, when both are invalid), and the list of requests sent is unchanged: no network call
  is made.
\<close>

theorem invoke_rejects_missing_or_blank_ids:
  "(missing_or_blank p ''sessionId'' \<longrightarrow>
      invoke P p c sent = (Inl (FatalError ''Invalid or missing sessionId parameter''), sent))
   \<and> (\<not> missing_or_blank p ''sessionId'' \<and> missing_or_blank p ''authMethodId'' \<longrightarrow>
      invoke P p c sent = (Inl (FatalError ''Invalid or missing authMethodId parameter''), sent))"
  by (simp add: invoke_def invoke_try_def validateInputs_def invalid_id_param)

theorem invoke_rejects_missing_or_blank_ids_witness:
  "missing_or_blank [''authMethodId'' \<mapsto> JStr ''ampw_1234567890''] ''sessionId''
   \<and> invoke (mockPlatform []) [''authMethodId'' \<mapsto> JStr ''ampw_1234567890''] mockContext []
       = (Inl (FatalError ''Invalid or missing sessionId parameter''), [])
   \<and> \<not> missing_or_blank [''sessionId'' \<mapsto> JStr ''s_1234567890'', ''authMethodId'' \<mapsto> JStr ''   ''] ''sessionId''
   \<and> missing_or_blank [''sessionId'' \<mapsto> JStr ''s_1234567890'', ''authMethodId'' \<mapsto> JStr ''   ''] ''authMethodId''
   \<and> invoke (mockPlatform []) [''sessionId'' \<mapsto> JStr ''s_1234567890'', ''authMethodId'' \<mapsto> JStr ''   ''] mockContext []
       = (Inl (FatalError ''Invalid or missing authMethodId parameter''), [])"
proof -
  have a: "missing_or_blank [''authMethodId'' \<mapsto> JStr ''ampw_1234567890''] ''sessionId''"
    by (simp add: missing_or_blank_def)
  have b: "\<not> missing_or_blank [''sessionId'' \<mapsto> JStr ''s_1234567890'', ''authMethodId'' \<mapsto> JStr ''   ''] ''sessionId''"
    by (simp add: missing_or_blank_def trim_def white_space_def)
  have c: "missing_or_blank [''sessionId'' \<mapsto> JStr ''s_1234567890'', ''authMethodId'' \<mapsto> JStr ''   ''] ''authMethodId''"
    by (simp add: missing_or_blank_def trim_def white_space_def)
  show ?thesis
    using a b c
      invoke_rejects_missing_or_blank_ids [of "[''authMethodId'' \<mapsto> JStr ''ampw_1234567890'']" "mockPlatform []" mockContext "[]"]
      invoke_rejects_missing_or_blank_ids [of "[''sessionId'' \<mapsto> JStr ''s_1234567890'', ''authMethodId'' \<mapsto> JStr ''   '']" "mockPlatform []" mockContext "[]"]
    by blast
qed

subsection \<open>Failure of one of the three requests\<close>

text \<open>
  C4. When the authenticate call is answered with status 401 or 403, \<open>invoke\<close> throws the
  \<open>FatalError\<close> "Invalid username or password", and the authenticate request is the only
  request sent: neither the session is read nor a cancel request made.
\<close>

theorem invoke_bad_credentials:
  assumes "passes_checks p c b"
    and "transport P sent (authenticate_call P p c b) = Inr r"
    and "status r = 401 \<or> status r = 403"
  shows "invoke P p c sent =
           (Inl (FatalError ''Invalid username or password''), sent @ [authenticate_call P p c b])"
proof -
  from assms(3) have nok: "\<not> ok r" by (auto simp: ok_def)
  from assms(3) have f: "authenticate_failure r = FatalError ''Invalid username or password''"
    by (auto simp: authenticate_failure_def)
  from invoke_authenticate_throws [OF assms(1) authenticate_call_not_ok [OF assms(1,2) nok]]
  show ?thesis by (simp add: f)
qed

text \<open>
  C5. When authentication succeeds and the read of the session is answered with status 404,
  \<open>invoke\<close> throws the \<open>FatalError\<close> "Session not found: " followed by the session id, and
  the requests sent are the authenticate request and the read: no cancel request is made.
  (The read is sent only for a token that has a string form.)
\<close>

theorem invoke_session_not_found:
  assumes "passes_checks p c b"
    and "transport P sent (authenticate_call P p c b) = Inr r1" "ok r1"
      "truthy (token_of r1)" "printable (token_of r1)"
    and "transport P (sent @ [authenticate_call P p c b]) (getSession_call P p (token_of r1) b) = Inr r2"
    and "status r2 = 404"
  shows "\<exists>sid. param p ''sessionId'' = JStr sid
           \<and> invoke P p c sent =
               (Inl (FatalError (''Session not found: '' @ sid)),
                sent @ [authenticate_call P p c b, getSession_call P p (token_of r1) b])"
proof -
  from passes_checks_ids [OF assms(1)] obtain sid where sid: "param p ''sessionId'' = JStr sid"
    by blast
  from assms(7) have nok: "\<not> ok r2" by (simp add: ok_def)
  from assms(7) have f: "getSession_failure (param p ''sessionId'') r2 = FatalError (''Session not found: '' @ sid)"
    by (simp add: getSession_failure_def sid)
  from invoke_getSession_throws [OF assms(1-4) getSession_call_not_ok [OF assms(1) assms(5) assms(6) nok]]
  have "invoke P p c sent = (Inl (FatalError (''Session not found: '' @ sid)),
                sent @ [authenticate_call P p c b, getSession_call P p (token_of r1) b])"
    by (simp add: f)
  with sid show ?thesis by blast
qed

text \<open>
  C6 (amended). When the cancel call is answered with status 409, \<open>invoke\<close> throws a
  \<open>FatalError\<close> (its \<open>retryable\<close> flag is false) with the message "Session conflict (may
  already be cancelled): " followed by the body of the response. The cancel request is sent
  once, as the last of three requests, and no result record is returned. (The cancel is sent
  only for a token and a version that have a string form.)
\<close>

theorem invoke_cancel_conflict:
  assumes "passes_checks p c b"
    and "transport P sent (authenticate_call P p c b) = Inr r1" "ok r1"
      "truthy (token_of r1)" "printable (token_of r1)"
    and "transport P (sent @ [authenticate_call P p c b]) (getSession_call P p (token_of r1) b) = Inr r2"
      "ok r2" "truthy (version_of r2)" "printable (version_of r2)"
    and "transport P (sent @ [authenticate_call P p c b, getSession_call P p (token_of r1) b])
           (cancelSession_call P p (version_of r2) (token_of r1) b) = Inr r3"
    and "status r3 = 409"
  shows "invoke P p c sent =
           (Inl (FatalError (''Session conflict (may already be cancelled): '' @ responseText r3)),
            sent @ [authenticate_call P p c b, getSession_call P p (token_of r1) b,
                    cancelSession_call P p (version_of r2) (token_of r1) b])
         \<and> retryable (FatalError (''Session conflict (may already be cancelled): '' @ responseText r3))
             = Some False"
proof -
  from assms(11) have nok: "\<not> ok r3" by (simp add: ok_def)
  from assms(11) have f: "cancelSession_failure (param p ''sessionId'') r3
      = FatalError (''Session conflict (may already be cancelled): '' @ responseText r3)"
    by (simp add: cancelSession_failure_def)
  from invoke_cancelSession_throws [OF assms(1-9)
      cancelSession_call_not_ok [OF assms(1) assms(5) assms(10) nok]]
  show ?thesis by (simp add: f)
qed

subsection \<open>The base URL\<close>

lemma getBaseURL_absent:
  "p ''address'' = None \<Longrightarrow> environment c ''ADDRESS'' = None \<Longrightarrow> getBaseURL p c = Inl no_url"
  by (simp add: getBaseURL_def)

lemma validateInputs_cases:
  "validateInputs p = Inl (FatalError ''Invalid or missing sessionId parameter'')
   \<or> validateInputs p = Inl (FatalError ''Invalid or missing authMethodId parameter'')
   \<or> (validateInputs p = Inr () \<and> (\<exists>s. param p ''sessionId'' = JStr s))"
  by (cases "param p ''sessionId''") (auto simp: validateInputs_def invalid_id_def)

text \<open>
  C3 (amended). When neither the \<open>address\<close> parameter nor the \<open>ADDRESS\<close> setting is there,
  \<open>invoke\<close> throws a \<open>FatalError\<close> and sends no request. When moreover both identifiers
  are valid and both secrets are there, the message is the one of \<open>getBaseURL\<close> behind the
  prefix "Unexpected error: ".
\<close>

theorem invoke_missing_url:
  assumes "p ''address'' = None" and "environment c ''ADDRESS'' = None"
  shows "(\<exists>m. invoke P p c sent = (Inl (FatalError m), sent))
       \<and> (validateInputs p = Inr ()
            \<and> truthy (opt_chain (secrets c) ''BASIC_USERNAME'')
            \<and> truthy (opt_chain (secrets c) ''BASIC_PASSWORD'') \<longrightarrow>
          invoke P p c sent =
            (Inl (FatalError ''Unexpected error: No URL specified. Provide address parameter or ADDRESS environment variable''),
             sent))"
proof -
  have u: "getBaseURL p c = Inl no_url"
    using assms by (rule getBaseURL_absent)
  from validateInputs_cases [of p] show ?thesis
    by (elim disjE conjE exE) (simp_all add: invoke_def invoke_try_def u no_url_def)
qed

subsection \<open>The catch clause\<close>

text \<open>
  C8. An error thrown in the \<open>try\<close> block that is an instance of neither class is thrown
  by \<open>invoke\<close> as a \<open>FatalError\<close> whose message is "Unexpected error: " followed by the
  message of the error; a \<open>RetryableError\<close> or a \<open>FatalError\<close> is thrown as it is. The
  requests sent are the same in each case. Such an error does occur: a \<open>fetch\<close> that rejects
  at the authenticate call is thrown by \<open>invoke\<close> in this wrapped form.
\<close>

theorem invoke_wraps_unclassified:
  "(invoke_try P p c sent = (Inl (Error m), sent') \<longrightarrow>
      invoke P p c sent = (Inl (FatalError (''Unexpected error: '' @ m)), sent'))
   \<and> (invoke_try P p c sent = (Inl (RetryableError m), sent') \<longrightarrow>
      invoke P p c sent = (Inl (RetryableError m), sent'))
   \<and> (invoke_try P p c sent = (Inl (FatalError m), sent') \<longrightarrow>
      invoke P p c sent = (Inl (FatalError m), sent'))
   \<and> (passes_checks p c b \<and> transport P sent (authenticate_call P p c b) = Inl m \<longrightarrow>
      invoke P p c sent =
        (Inl (FatalError (''Unexpected error: '' @ m)), sent @ [authenticate_call P p c b]))"
proof -
  have "invoke P p c sent =
        (Inl (FatalError (''Unexpected error: '' @ m)), sent @ [authenticate_call P p c b])"
    if checks: "passes_checks p c b"
      and rejected: "transport P sent (authenticate_call P p c b) = Inl m"
    using invoke_authenticate_throws [OF checks authenticate_call_rejected [OF checks rejected]]
    by simp
  then show ?thesis by (simp add: invoke_def)
qed

subsection \<open>The halt handler\<close>

lemma js_or_unknown: "js_or (param p k) (JStr ''unknown'') = echoed_or_unknown p k"
  by (simp add: js_or_def param_def echoed_or_unknown_def split: option.splits)

text \<open>
  C9 (amended). For every input whose \<open>reason\<close> has a string form, \<open>halt\<close> returns a
  record, throws nothing and sends no request. \<open>cleanupCompleted\<close> is true, \<open>haltedAt\<close> is
  the clock's time in ISO 8601, and each of \<open>sessionId\<close>, \<open>authMethodId\<close> and \<open>reason\<close> is
  the value of the parameter when it is there and truthy, and the string "unknown" when it is
  missing or falsy.
\<close>

theorem halt_returns_record:
  assumes "printable (param p ''reason'')"
  shows "halt P p c sent =
     (Inr \<lparr>sessionId = echoed_or_unknown p ''sessionId'',
           authMethodId = echoed_or_unknown p ''authMethodId'',
           reason = echoed_or_unknown p ''reason'',
           haltedAt = toISOString (clock P),
           cleanupCompleted = True\<rparr>, sent)
   \<and> (valid_date (clock P) \<longrightarrow> is_iso8601 (toISOString (clock P)))"
  using assms by (simp add: halt_def js_or_unknown toISOString_valid printable_to_string)

text \<open>
  The template of the \<open>console.log\<close> of \<open>halt\<close> is evaluated before the record is built,
  outside any \<open>try\<close>: a \<open>reason\<close> that has no string form makes \<open>halt\<close> throw.
\<close>

lemma halt_throws:
  assumes "\<not> printable (param p ''reason'')"
  shows "halt P p c sent = (Inl (Error ''Cannot convert object to primitive value''), sent)"
proof -
  from assms obtain e where e: "to_string (param p ''reason'') = Inl e"
    by (cases "to_string (param p ''reason'')") (simp_all add: printable_def)
  with to_string_error(1) [OF e] show ?thesis by (simp add: halt_def)
qed

subsection \<open>Falsy token and version\<close>

text \<open>
  C10. A 2xx answer to the read of the session whose body is an object with \<open>version\<close> equal
  to 0 makes \<open>getSession\<close> throw the \<open>FatalError\<close> "No version returned from session"
  (it does not return 0); a 2xx answer to the authenticate call whose \<open>attributes.token\<close> is
  the empty string makes \<open>authenticate\<close> throw "No token returned from authentication".
  (A request is sent, and so answered, only when the values that its URL and headers
  interpolate have a string form.)
\<close>

theorem falsy_version_and_token_rejected:
  "(to_string s = Inr sid \<and> to_string t = Inr tok
      \<and> transport P sent (getSession_request P (session_url b sid) tok) = Inr r \<and> ok r
      \<and> json r = Inr (JObj kvs) \<and> map_of kvs ''version'' = Some (JNum 0) \<longrightarrow>
    getSession P s t b sent =
      (Inl (FatalError ''No version returned from session''),
       sent @ [getSession_request P (session_url b sid) tok]))
   \<and> (to_string a = Inr aid
      \<and> transport P sent (authenticate_request P (authenticate_url b aid) u pw) = Inr r' \<and> ok r'
      \<and> json r' = Inr (JObj kvs')
      \<and> map_of kvs' ''attributes'' = Some (JObj avs) \<and> map_of avs ''token'' = Some (JStr []) \<longrightarrow>
    authenticate P a u pw b sent =
      (Inl (FatalError ''No token returned from authentication''),
       sent @ [authenticate_request P (authenticate_url b aid) u pw]))"
  by (simp add: getSession_def authenticate_def fetch_def get_prop_def opt_chain_def nullish_def)

subsection \<open>Retryable and fatal errors\<close>

lemma transient_not_ok: "transient r \<Longrightarrow> \<not> ok r"
  by (auto simp: transient_def ok_def)

lemma authenticate_failure_transient:
  "transient r \<Longrightarrow> \<exists>m. authenticate_failure r = RetryableError m"
  by (auto simp: transient_def authenticate_failure_def)

lemma getSession_failure_transient:
  "transient r \<Longrightarrow> \<exists>m. getSession_failure s r = RetryableError m"
  by (auto simp: transient_def getSession_failure_def)

lemma cancelSession_failure_transient:
  "transient r \<Longrightarrow> \<exists>m. cancelSession_failure s r = RetryableError m"
  by (auto simp: transient_def cancelSession_failure_def)

lemma authenticate_failure_other:
  "\<not> transient r \<Longrightarrow> authenticate_failure r \<noteq> RetryableError m"
  by (auto simp: transient_def authenticate_failure_def)

lemma getSession_failure_other:
  "\<not> transient r \<Longrightarrow> getSession_failure s r \<noteq> RetryableError m"
  by (auto simp: transient_def getSession_failure_def split: sum.splits dest: to_string_error(1))

lemma cancelSession_failure_other:
  "\<not> transient r \<Longrightarrow> cancelSession_failure s r \<noteq> RetryableError m"
  by (auto simp: transient_def cancelSession_failure_def split: sum.splits dest: to_string_error(1))

text \<open>
  An error of one of the three functions is retryable only when the function sent its request
  and the response was transient.
\<close>

lemma authenticate_error:
  assumes "authenticate P a u pw b s = (Inl e, s')"
  shows "(\<forall>m. e \<noteq> RetryableError m)
       \<or> (\<exists>rq r. s' = s @ [rq] \<and> transport P s rq = Inr r \<and> transient r)"
proof (cases "to_string a")
  case (Inl e')
  with assms to_string_error(1) [OF Inl] show ?thesis by (auto simp: authenticate_def)
next
  case a: (Inr aid)
  show ?thesis
  proof (cases "transport P s (authenticate_request P (authenticate_url b aid) u pw)")
    case (Inl m)
    with assms a show ?thesis by (auto simp: authenticate_rejected)
  next
    case (Inr r)
    show ?thesis
    proof (cases "transient r")
      case True
      with Inr assms a have "s' = s @ [authenticate_request P (authenticate_url b aid) u pw]"
        by (simp add: authenticate_not_ok transient_not_ok)
      with Inr True show ?thesis by blast
    next
      case False
      with Inr assms a authenticate_failure_other [of r] have "\<forall>m. e \<noteq> RetryableError m"
        by (auto simp: authenticate_def fetch_def get_prop_def split: sum.splits if_splits)
      then show ?thesis ..
    qed
  qed
qed

lemma getSession_error:
  assumes "getSession P i t b s = (Inl e, s')"
  shows "(\<forall>m. e \<noteq> RetryableError m)
       \<or> (\<exists>rq r. s' = s @ [rq] \<and> transport P s rq = Inr r \<and> transient r)"
proof (cases "to_string i")
  case (Inl e')
  with assms to_string_error(1) [OF Inl] show ?thesis by (auto simp: getSession_def)
next
  case i: (Inr sid)
  show ?thesis
  proof (cases "to_string t")
    case (Inl e')
    with assms i to_string_error(1) [OF Inl] show ?thesis by (auto simp: getSession_def)
  next
    case t: (Inr tok)
    show ?thesis
    proof (cases "transport P s (getSession_request P (session_url b sid) tok)")
      case (Inl m)
      with assms i t show ?thesis by (auto simp: getSession_rejected)
    next
      case (Inr r)
      show ?thesis
      proof (cases "transient r")
        case True
        with Inr assms i t have "s' = s @ [getSession_request P (session_url b sid) tok]"
          by (simp add: getSession_not_ok transient_not_ok)
        with Inr True show ?thesis by blast
      next
        case False
        with Inr assms i t getSession_failure_other [of r i] have "\<forall>m. e \<noteq> RetryableError m"
          by (auto simp: getSession_def fetch_def get_prop_def split: sum.splits if_splits)
        then show ?thesis ..
      qed
    qed
  qed
qed

lemma cancelSession_error:
  assumes "cancelSession P i v t b s = (Inl e, s')"
  shows "(\<forall>m. e \<noteq> RetryableError m)
       \<or> (\<exists>rq r. s' = s @ [rq] \<and> transport P s rq = Inr r \<and> transient r)"
proof (cases "to_string i")
  case (Inl e')
  with assms to_string_error(1) [OF Inl] show ?thesis by (auto simp: cancelSession_def)
next
  case i: (Inr sid)
  show ?thesis
  proof (cases "to_string t")
    case (Inl e')
    with assms i to_string_error(1) [OF Inl] show ?thesis by (auto simp: cancelSession_def)
  next
    case t: (Inr tok)
    show ?thesis
    proof (cases "transport P s (cancelSession_request P (cancel_url b sid) tok i v)")
      case (Inl m)
      with assms i t show ?thesis by (auto simp: cancelSession_rejected)
    next
      case (Inr r)
      show ?thesis
      proof (cases "transient r")
        case True
        with Inr assms i t have "s' = s @ [cancelSession_request P (cancel_url b sid) tok i v]"
          by (simp add: cancelSession_not_ok transient_not_ok)
        with Inr True show ?thesis by blast
      next
        case False
        with Inr assms i t cancelSession_failure_other [of r i] have "\<forall>m. e \<noteq> RetryableError m"
          by (auto simp: cancelSession_def fetch_def split: sum.splits if_splits)
        then show ?thesis ..
      qed
    qed
  qed
qed

lemma invoke_try_error:
  assumes "invoke_try P p c sent = (Inl e, sent')"
  shows "(\<forall>m. e \<noteq> RetryableError m)
       \<or> (\<exists>xs rq r. sent' = sent @ xs @ [rq]
            \<and> transport P (sent @ xs) rq = Inr r \<and> transient r)"
proof (cases "\<exists>b. passes_checks p c b")
  case False
  with assms have "\<forall>m. e \<noteq> RetryableError m"
    by (auto simp: invoke_try_def passes_checks_def validateInputs_def
        split: sum.splits if_splits dest: to_string_error(1))
  then show ?thesis ..
next
  case True
  then obtain b where b: "passes_checks p c b" ..
  note calls = invoke_try_calls [OF b, of P sent]
  let ?Q = "\<lambda>xs. \<exists>rq r. sent' = sent @ xs @ [rq]
            \<and> transport P (sent @ xs) rq = Inr r \<and> transient r"
  obtain o1 s1 where a: "authenticate P (param p ''authMethodId'') (member (secrets c) ''BASIC_USERNAME'')
             (member (secrets c) ''BASIC_PASSWORD'') b sent = (o1, s1)"
    by (cases "authenticate P (param p ''authMethodId'') (member (secrets c) ''BASIC_USERNAME'')
             (member (secrets c) ''BASIC_PASSWORD'') b sent")
  show ?thesis
  proof (cases o1)
    case (Inl e1)
    with a calls assms have "e1 = e" "s1 = sent'" by simp_all
    with a Inl authenticate_error [of P _ _ _ b sent e sent']
    have "(\<forall>m. e \<noteq> RetryableError m) \<or> ?Q []" by simp
    then show ?thesis by blast
  next
    case tok: (Inr token)
    from authenticate_sent [OF a] tok obtain rq1 where s1: "s1 = sent @ [rq1]" by auto
    obtain o2 s2 where g: "getSession P (param p ''sessionId'') token b s1 = (o2, s2)"
      by (cases "getSession P (param p ''sessionId'') token b s1")
    show ?thesis
    proof (cases o2)
      case (Inl e2)
      with a tok g calls assms have "e2 = e" "s2 = sent'" by simp_all
      with g Inl s1 getSession_error [of P _ token b s1 e sent']
      have "(\<forall>m. e \<noteq> RetryableError m) \<or> ?Q [rq1]" by simp
      then show ?thesis by blast
    next
      case ver: (Inr version)
      from getSession_sent [OF g] ver obtain rq2 where s2: "s2 = s1 @ [rq2]" by auto
      show ?thesis
      proof (cases "console_log [param p ''sessionId'', version]")
        case (Inl e')
        with a tok g ver calls assms have "e' = e" by simp
        with console_log_error [OF Inl] show ?thesis by simp
      next
        case l: (Inr u)
        obtain o3 s3 where k: "cancelSession P (param p ''sessionId'') version token b s2 = (o3, s3)"
          by (cases "cancelSession P (param p ''sessionId'') version token b s2")
        show ?thesis
        proof (cases o3)
          case (Inl e3)
          with a tok g ver l k calls assms have "e3 = e" "s3 = sent'" by simp_all
          with k Inl s1 s2 cancelSession_error [of P _ version token b s2 e sent']
          have "(\<forall>m. e \<noteq> RetryableError m) \<or> ?Q [rq1, rq2]" by simp
          then show ?thesis by blast
        next
          case (Inr x)
          with a tok g ver l k calls assms show ?thesis by simp
        qed
      qed
    qed
  qed
qed

lemma invoke_error_classified:
  assumes "invoke P p c sent = (Inl e, sent')"
  shows "(\<exists>m. e = FatalError m)
       \<or> ((\<exists>m. e = RetryableError m) \<and> sent' \<noteq> sent
           \<and> (\<exists>r. transport P (butlast sent') (last sent') = Inr r \<and> transient r))"
proof -
  from assms obtain e0 where t: "invoke_try P p c sent = (Inl e0, sent')" and e: "e = invoke_catch e0"
    by (auto simp: invoke_def split: prod.splits sum.splits)
  show ?thesis
  proof (cases e0)
    case (RetryableError m)
    with invoke_try_error [OF t] obtain xs rq r where x: "sent' = sent @ xs @ [rq]"
      and r: "transport P (sent @ xs) rq = Inr r" "transient r"
      by blast
    from x have "butlast sent' = sent @ xs" "last sent' = rq" "sent' \<noteq> sent"
      by (simp_all add: butlast_append)
    with r e RetryableError show ?thesis by auto
  next
    case (FatalError m)
    with e show ?thesis by simp
  next
    case (Error m)
    with e show ?thesis by simp
  qed
qed

lemma invoke_authenticate_transient:
  assumes "passes_checks p c b"
    and "transport P sent (authenticate_call P p c b) = Inr r" "transient r"
  shows "\<exists>m. invoke P p c sent = (Inl (RetryableError m), sent @ [authenticate_call P p c b])"
proof -
  from assms(3) obtain m where f: "authenticate_failure r = RetryableError m"
    using authenticate_failure_transient by blast
  from invoke_authenticate_throws [OF assms(1)
      authenticate_call_not_ok [OF assms(1,2) transient_not_ok [OF assms(3)]]]
  show ?thesis by (simp add: f)
qed

lemma invoke_getSession_transient:
  assumes "passes_checks p c b"
    and "transport P sent (authenticate_call P p c b) = Inr r1" "ok r1"
      "truthy (token_of r1)" "printable (token_of r1)"
    and "transport P (sent @ [authenticate_call P p c b]) (getSession_call P p (token_of r1) b) = Inr r"
    and "transient r"
  shows "\<exists>m. invoke P p c sent =
           (Inl (RetryableError m),
            sent @ [authenticate_call P p c b, getSession_call P p (token_of r1) b])"
proof -
  from assms(7) obtain m where f: "getSession_failure (param p ''sessionId'') r = RetryableError m"
    using getSession_failure_transient by blast
  from invoke_getSession_throws [OF assms(1-4)
      getSession_call_not_ok [OF assms(1) assms(5) assms(6) transient_not_ok [OF assms(7)]]]
  show ?thesis by (simp add: f)
qed

lemma invoke_cancelSession_transient:
  assumes "passes_checks p c b"
    and "transport P sent (authenticate_call P p c b) = Inr r1" "ok r1"
      "truthy (token_of r1)" "printable (token_of r1)"
    and "transport P (sent @ [authenticate_call P p c b]) (getSession_call P p (token_of r1) b) = Inr r2"
      "ok r2" "truthy (version_of r2)" "printable (version_of r2)"
    and "transport P (sent @ [authenticate_call P p c b, getSession_call P p (token_of r1) b])
           (cancelSession_call P p (version_of r2) (token_of r1) b) = Inr r"
    and "transient r"
  shows "\<exists>m. invoke P p c sent =
           (Inl (RetryableError m),
            sent @ [authenticate_call P p c b, getSession_call P p (token_of r1) b,
                    cancelSession_call P p (version_of r2) (token_of r1) b])"
proof -
  from assms(11) obtain m where f: "cancelSession_failure (param p ''sessionId'') r = RetryableError m"
    using cancelSession_failure_transient by blast
  from invoke_cancelSession_throws [OF assms(1-9)
      cancelSession_call_not_ok [OF assms(1) assms(5) assms(10) transient_not_ok [OF assms(11)]]]
  show ?thesis by (simp add: f)
qed

text \<open>
  C7. At each of the three requests, a response with status 429 or with status 500 or more
  makes \<open>invoke\<close> throw a \<open>RetryableError\<close>. Every other error that \<open>invoke\<close> throws is a
  \<open>FatalError\<close>: when \<open>invoke\<close> throws a \<open>RetryableError\<close>, the last request it sent was
  answered with such a response. A response is one received in full: a body that cannot be
  read is a rejection of the transport, and gives a \<open>FatalError\<close>. The second request is
  sent only for a token that has a string form, the third only for a version that has one.
\<close>

theorem invoke_retryable_iff_transient:
  "(passes_checks p c b
      \<and> transport P sent (authenticate_call P p c b) = Inr r1 \<and> transient r1 \<longrightarrow>
    (\<exists>m. invoke P p c sent = (Inl (RetryableError m), sent @ [authenticate_call P p c b])))
   \<and> (passes_checks p c b
      \<and> transport P sent (authenticate_call P p c b) = Inr r1 \<and> ok r1
      \<and> truthy (token_of r1) \<and> printable (token_of r1)
      \<and> transport P (sent @ [authenticate_call P p c b]) (getSession_call P p (token_of r1) b) = Inr r2
      \<and> transient r2 \<longrightarrow>
    (\<exists>m. invoke P p c sent =
            (Inl (RetryableError m),
             sent @ [authenticate_call P p c b, getSession_call P p (token_of r1) b])))
   \<and> (passes_checks p c b
      \<and> transport P sent (authenticate_call P p c b) = Inr r1 \<and> ok r1
      \<and> truthy (token_of r1) \<and> printable (token_of r1)
      \<and> transport P (sent @ [authenticate_call P p c b]) (getSession_call P p (token_of r1) b) = Inr r2
      \<and> ok r2 \<and> truthy (version_of r2) \<and> printable (version_of r2)
      \<and> transport P (sent @ [authenticate_call P p c b, getSession_call P p (token_of r1) b])
           (cancelSession_call P p (version_of r2) (token_of r1) b) = Inr r3
      \<and> transient r3 \<longrightarrow>
    (\<exists>m. invoke P p c sent =
            (Inl (RetryableError m),
             sent @ [authenticate_call P p c b, getSession_call P p (token_of r1) b,
                     cancelSession_call P p (version_of r2) (token_of r1) b])))
   \<and> (\<forall>e sent'. invoke P p c sent = (Inl e, sent') \<longrightarrow>
         (\<exists>m. e = FatalError m)
         \<or> ((\<exists>m. e = RetryableError m) \<and> sent' \<noteq> sent
             \<and> (\<exists>r. transport P (butlast sent') (last sent') = Inr r \<and> transient r)))"
  using invoke_authenticate_transient [of p c b P sent r1]
    invoke_getSession_transient [of p c b P sent r1 r2]
    invoke_cancelSession_transient [of p c b P sent r1 r2 r3]
    invoke_error_classified [of P p c sent]
  by blast

subsection \<open>A token or a version that has no string form\<close>

text \<open>
  A truthy token need not have a string form: the object \<open>{"toString": null}\<close> is one that
  has none. Then the template of the \<open>Authorization\<close> header throws before the read of the
  session is sent, and \<open>invoke\<close> throws the wrapped \<open>TypeError\<close> after one request.
  Likewise for a version, which the \<open>console.log\<close> before the cancel call prints: \<open>invoke\<close>
  throws after two requests.
\<close>

lemma invoke_unprintable_token:
  assumes "passes_checks p c b"
    and "transport P sent (authenticate_call P p c b) = Inr r1" "ok r1"
      "truthy (token_of r1)" "\<not> printable (token_of r1)"
  shows "invoke P p c sent =
           (Inl (FatalError ''Unexpected error: Cannot convert object to primitive value''),
            sent @ [authenticate_call P p c b])"
proof -
  from passes_checks_ids [OF assms(1)] obtain s where s: "param p ''sessionId'' = JStr s"
    by blast
  from assms(5) obtain e where e: "to_string (token_of r1) = Inl e"
    by (cases "to_string (token_of r1)") (simp_all add: printable_def)
  have "getSession P (param p ''sessionId'') (token_of r1) b (sent @ [authenticate_call P p c b])
        = (Inl e, sent @ [authenticate_call P p c b])"
    by (simp add: getSession_def s e)
  from invoke_getSession_throws [OF assms(1-4) this] to_string_error(1) [OF e]
  show ?thesis by simp
qed

lemma invoke_unprintable_version:
  assumes "passes_checks p c b"
    and "transport P sent (authenticate_call P p c b) = Inr r1" "ok r1"
      "truthy (token_of r1)" "printable (token_of r1)"
    and "transport P (sent @ [authenticate_call P p c b]) (getSession_call P p (token_of r1) b) = Inr r2"
      "ok r2" "truthy (version_of r2)" "\<not> printable (version_of r2)"
  shows "invoke P p c sent =
           (Inl (FatalError ''Unexpected error: Cannot convert object to primitive value''),
            sent @ [authenticate_call P p c b, getSession_call P p (token_of r1) b])"
proof -
  from passes_checks_ids [OF assms(1)] obtain s where s: "param p ''sessionId'' = JStr s"
    by blast
  from assms(9) obtain e where e: "to_string (version_of r2) = Inl e"
    by (cases "to_string (version_of r2)") (simp_all add: printable_def)
  then have l: "console_log [param p ''sessionId'', version_of r2] = Inl e"
    by (simp add: s)
  from to_string_error(1) [OF e] show ?thesis
    using getSession_call_ok [OF assms(1) assms(5) assms(6-8)] l
    by (simp add: invoke_def invoke_try_calls [OF assms(1)] authenticate_call_ok [OF assms(1-4)])
qed

section \<open>The properties at the inputs of the tests\<close>

lemma mock_passes_checks: "passes_checks mockParams mockContext mockAddress"
  by (simp add: passes_checks_def validateInputs_def invalid_id_def param_def mockParams_def
      trim_def white_space_def mockContext_def opt_chain_def nullish_def getBaseURL_def mockAddress_def)

lemma mock_transport: "transport (mockPlatform answers) sent rq = scripted answers sent rq"
  by (simp add: mockPlatform_def)

lemma scripted_first: "scripted (a # answers) [] rq = a"
  by (simp add: scripted_def)

lemma scripted_second: "scripted (a # b # answers) [x] rq = b"
  by (simp add: scripted_def)

lemma scripted_third: "scripted (a # b # c # answers) [x, y] rq = c"
  by (simp add: scripted_def)

lemma scripted_none: "scripted [] sent rq = Inl ''fetch failed''"
  by (simp add: scripted_def)

lemma mock_responses:
  "ok (tokenResponse t)" "token_of (tokenResponse t) = t"
  "ok (versionResponse v)" "version_of (versionResponse v) = v"
  "ok emptyResponse" "status (failureResponse n) = n" "responseText (failureResponse n) = ''failed''"
  by (simp_all add: ok_def tokenResponse_def token_of_def versionResponse_def version_of_def
      emptyResponse_def failureResponse_def)

lemma mock_printable:
  "printable (JNum n)" "text_of (JNum 1) = ''1''"
  "\<not> printable (JObj [(''toString'', JNull)])"
  by (simp_all add: printable_def text_of_def number_to_string_def digit_def)

lemma mock_clock: "toISOString (clock (mockPlatform answers)) = ''2024-01-15T10:30:00.000Z''"
  by code_simp

lemma mock_valid_date: "valid_date (clock (mockPlatform answers))"
  by (simp add: valid_date_def mockPlatform_def)

lemma mock_ids:
  "param mockParams ''sessionId'' = JStr ''s_1234567890''"
  "param mockParams ''authMethodId'' = JStr ''ampw_1234567890''"
  by (simp_all add: param_def mockParams_def)

lemmas mock_simps = mock_transport scripted_first scripted_second scripted_third scripted_none
  mock_responses mock_printable mock_clock mock_ids

lemma mock_calls:
  "url (authenticate_call P mockParams mockContext mockAddress)
     = ''https://boundary.example.com/v1/auth-methods/ampw_1234567890:authenticate''"
  "url (getSession_call P mockParams t mockAddress)
     = ''https://boundary.example.com/v1/sessions/s_1234567890''"
  "url (cancelSession_call P mockParams v t mockAddress)
     = ''https://boundary.example.com/v1/sessions/s_1234567890:cancel''"
  "httpMethod (authenticate_call P mockParams mockContext mockAddress) = ''POST''"
  "httpMethod (getSession_call P mockParams t mockAddress) = ''GET''"
  "httpMethod (cancelSession_call P mockParams v t mockAddress) = ''POST''"
  by (simp_all add: authenticate_call_def getSession_call_def cancelSession_call_def
      authenticate_request_def getSession_request_def cancelSession_request_def
      authenticate_url_def session_url_def cancel_url_def
      mock_ids mockAddress_def encodeURIComponent_def unreserved_def)

theorem invoke_cancels_session_witness:
  "passes_checks mockParams mockContext mockAddress
   \<and> valid_date (clock (mockPlatform mockFetch))
   \<and> invoke (mockPlatform mockFetch) mockParams mockContext [] =
       (Inr \<lparr>sessionId = JStr ''s_1234567890'', authMethodId = JStr ''ampw_1234567890'',
             sessionCancelled = True, cancelledAt = ''2024-01-15T10:30:00.000Z''\<rparr>,
        [authenticate_call (mockPlatform mockFetch) mockParams mockContext mockAddress,
         getSession_call (mockPlatform mockFetch) mockParams (JStr ''mock-token'') mockAddress,
         cancelSession_call (mockPlatform mockFetch) mockParams (JNum 1) (JStr ''mock-token'') mockAddress])
   \<and> map url (snd (invoke (mockPlatform mockFetch) mockParams mockContext [])) =
       [''https://boundary.example.com/v1/auth-methods/ampw_1234567890:authenticate'',
        ''https://boundary.example.com/v1/sessions/s_1234567890'',
        ''https://boundary.example.com/v1/sessions/s_1234567890:cancel'']
   \<and> map httpMethod (snd (invoke (mockPlatform mockFetch) mockParams mockContext [])) =
       [''POST'', ''GET'', ''POST'']
   \<and> is_iso8601 ''2024-01-15T10:30:00.000Z''"
  using invoke_cancels_session [of mockParams mockContext mockAddress "mockPlatform mockFetch" "[]"
      "tokenResponse (JStr ''mock-token'')" "versionResponse (JNum 1)" emptyResponse]
    mock_passes_checks mock_valid_date [of mockFetch]
  by (simp add: mock_simps mock_calls mockFetch_def)

text \<open>The same invocation with a token, or a version, that has no string form.\<close>

lemma invoke_unprintable_token_example:
  "invoke (mockPlatform [Inr (tokenResponse (JObj [(''toString'', JNull)])),
                          Inr (versionResponse (JNum 1)), Inr emptyResponse])
      mockParams mockContext [] =
     (Inl (FatalError ''Unexpected error: Cannot convert object to primitive value''),
      [authenticate_call (mockPlatform [Inr (tokenResponse (JObj [(''toString'', JNull)])),
          Inr (versionResponse (JNum 1)), Inr emptyResponse]) mockParams mockContext mockAddress])"
  using invoke_unprintable_token [of mockParams mockContext mockAddress
      "mockPlatform [Inr (tokenResponse (JObj [(''toString'', JNull)])),
                     Inr (versionResponse (JNum 1)), Inr emptyResponse]" "[]"
      "tokenResponse (JObj [(''toString'', JNull)])"]
    mock_passes_checks
  by (simp add: mock_simps)

lemma invoke_unprintable_version_example:
  "invoke (mockPlatform [Inr (tokenResponse (JStr ''mock-token'')),
                          Inr (versionResponse (JObj [(''toString'', JNull)])), Inr emptyResponse])
      mockParams mockContext [] =
     (Inl (FatalError ''Unexpected error: Cannot convert object to primitive value''),
      [authenticate_call (mockPlatform [Inr (tokenResponse (JStr ''mock-token'')),
          Inr (versionResponse (JObj [(''toString'', JNull)])), Inr emptyResponse])
          mockParams mockContext mockAddress,
       getSession_call (mockPlatform [Inr (tokenResponse (JStr ''mock-token'')),
          Inr (versionResponse (JObj [(''toString'', JNull)])), Inr emptyResponse])
          mockParams (JStr ''mock-token'') mockAddress])"
  using invoke_unprintable_version [of mockParams mockContext mockAddress
      "mockPlatform [Inr (tokenResponse (JStr ''mock-token'')),
                     Inr (versionResponse (JObj [(''toString'', JNull)])), Inr emptyResponse]" "[]"
      "tokenResponse (JStr ''mock-token'')" "versionResponse (JObj [(''toString'', JNull)])"]
    mock_passes_checks
  by (simp add: mock_simps)

theorem invoke_bad_credentials_witness:
  "passes_checks mockParams mockContext mockAddress
   \<and> status (failureResponse 401) = 401
   \<and> invoke (mockPlatform [Inr (failureResponse 401)]) mockParams mockContext [] =
       (Inl (FatalError ''Invalid username or password''),
        [authenticate_call (mockPlatform [Inr (failureResponse 401)]) mockParams mockContext mockAddress])"
  using invoke_bad_credentials [of mockParams mockContext mockAddress
      "mockPlatform [Inr (failureResponse 401)]" "[]" "failureResponse 401"]
    mock_passes_checks
  by (simp add: mock_simps)

theorem invoke_session_not_found_witness:
  "passes_checks mockParams mockContext mockAddress
   \<and> status (failureResponse 404) = 404
   \<and> invoke (mockPlatform [Inr (tokenResponse (JStr ''mock-token'')), Inr (failureResponse 404)])
         mockParams mockContext [] =
       (Inl (FatalError ''Session not found: s_1234567890''),
        [authenticate_call (mockPlatform [Inr (tokenResponse (JStr ''mock-token'')), Inr (failureResponse 404)])
           mockParams mockContext mockAddress,
         getSession_call (mockPlatform [Inr (tokenResponse (JStr ''mock-token'')), Inr (failureResponse 404)])
           mockParams (JStr ''mock-token'') mockAddress])"
  using invoke_session_not_found [of mockParams mockContext mockAddress
      "mockPlatform [Inr (tokenResponse (JStr ''mock-token'')), Inr (failureResponse 404)]" "[]"
      "tokenResponse (JStr ''mock-token'')" "failureResponse 404"]
    mock_passes_checks
  by (simp add: mock_simps)

theorem invoke_cancel_conflict_witness:
  "passes_checks mockParams mockContext mockAddress
   \<and> status (failureResponse 409) = 409
   \<and> invoke (mockPlatform [Inr (tokenResponse (JStr ''mock-token'')), Inr (versionResponse (JNum 1)),
                            Inr (failureResponse 409)])
         mockParams mockContext [] =
       (Inl (FatalError ''Session conflict (may already be cancelled): failed''),
        [authenticate_call (mockPlatform [Inr (tokenResponse (JStr ''mock-token'')),
             Inr (versionResponse (JNum 1)), Inr (failureResponse 409)]) mockParams mockContext mockAddress,
         getSession_call (mockPlatform [Inr (tokenResponse (JStr ''mock-token'')),
             Inr (versionResponse (JNum 1)), Inr (failureResponse 409)]) mockParams (JStr ''mock-token'') mockAddress,
         cancelSession_call (mockPlatform [Inr (tokenResponse (JStr ''mock-token'')),
             Inr (versionResponse (JNum 1)), Inr (failureResponse 409)]) mockParams (JNum 1) (JStr ''mock-token'')
             mockAddress])"
  using invoke_cancel_conflict [of mockParams mockContext mockAddress
      "mockPlatform [Inr (tokenResponse (JStr ''mock-token'')), Inr (versionResponse (JNum 1)),
                     Inr (failureResponse 409)]" "[]"
      "tokenResponse (JStr ''mock-token'')" "versionResponse (JNum 1)" "failureResponse 409"]
    mock_passes_checks
  by (simp add: mock_simps)

text \<open>
  The message of the conflict names the possible earlier cancellation and repeats the body
  of the response; it does not speak of a version.
\<close>

theorem invoke_cancel_conflict_counterexample:
  "fst (invoke (mockPlatform [Inr (tokenResponse (JStr ''mock-token'')), Inr (versionResponse (JNum 1)),
                              Inr (failureResponse 409)])
         mockParams mockContext []) =
       Inl (FatalError ''Session conflict (may already be cancelled): failed'')
   \<and> \<not> contains ''version'' ''Session conflict (may already be cancelled): failed''
   \<and> \<not> contains ''mismatch'' ''Session conflict (may already be cancelled): failed''"
proof -
  let ?P = "mockPlatform [Inr (tokenResponse (JStr ''mock-token'')), Inr (versionResponse (JNum 1)),
                          Inr (failureResponse 409)]"
  have nok: "\<not> ok (failureResponse 409)"
    by (simp add: ok_def failureResponse_def)
  have k: "transport ?P
             ([] @ [authenticate_call ?P mockParams mockContext mockAddress,
                    getSession_call ?P mockParams (token_of (tokenResponse (JStr ''mock-token''))) mockAddress])
             (cancelSession_call ?P mockParams (version_of (versionResponse (JNum 1)))
                (token_of (tokenResponse (JStr ''mock-token''))) mockAddress)
           = Inr (failureResponse 409)"
    by (simp add: mock_simps)
  have "invoke ?P mockParams mockContext [] =
          (Inl (invoke_catch (cancelSession_failure (param mockParams ''sessionId'') (failureResponse 409))),
           ([] @ [authenticate_call ?P mockParams mockContext mockAddress,
                  getSession_call ?P mockParams (token_of (tokenResponse (JStr ''mock-token''))) mockAddress])
           @ [cancelSession_call ?P mockParams (version_of (versionResponse (JNum 1)))
                (token_of (tokenResponse (JStr ''mock-token''))) mockAddress])"
    by (rule invoke_cancelSession_throws [OF mock_passes_checks _ _ _ _ _ _ _ _
          cancelSession_call_not_ok [OF mock_passes_checks _ k nok]])
       (simp_all add: mock_simps)
  then show ?thesis
    by (simp add: cancelSession_failure_def mock_simps)
qed

lemma mock_no_url:
  "mockParams ''address'' = None" "environment (mockContext\<lparr>environment := Map.empty\<rparr>) ''ADDRESS'' = None"
  "validateInputs mockParams = Inr ()"
  "truthy (opt_chain (secrets (mockContext\<lparr>environment := Map.empty\<rparr>)) ''BASIC_USERNAME'')"
  "truthy (opt_chain (secrets (mockContext\<lparr>environment := Map.empty\<rparr>)) ''BASIC_PASSWORD'')"
  using mock_passes_checks
  by (simp_all add: mockParams_def mockContext_def opt_chain_def nullish_def passes_checks_def)

theorem invoke_missing_url_witness:
  "mockParams ''address'' = None
   \<and> environment (mockContext\<lparr>environment := Map.empty\<rparr>) ''ADDRESS'' = None
   \<and> invoke (mockPlatform mockFetch) mockParams (mockContext\<lparr>environment := Map.empty\<rparr>) [] =
       (Inl (FatalError ''Unexpected error: No URL specified. Provide address parameter or ADDRESS environment variable''),
        [])"
  using invoke_missing_url [of mockParams "mockContext\<lparr>environment := Map.empty\<rparr>" "mockPlatform mockFetch" "[]"]
    mock_no_url
  by simp

theorem invoke_missing_url_counterexample:
  "[''authMethodId'' \<mapsto> JStr ''ampw_1234567890''] ''address'' = None
   \<and> environment (mockContext\<lparr>environment := Map.empty\<rparr>) ''ADDRESS'' = None
   \<and> invoke (mockPlatform mockFetch) [''authMethodId'' \<mapsto> JStr ''ampw_1234567890'']
        (mockContext\<lparr>environment := Map.empty\<rparr>) [] =
       (Inl (FatalError ''Invalid or missing sessionId parameter''), [])"
  by (simp add: invoke_def invoke_try_def validateInputs_def invalid_id_def param_def)

theorem invoke_wraps_unclassified_witness:
  "passes_checks mockParams mockContext mockAddress
   \<and> transport (mockPlatform []) [] (authenticate_call (mockPlatform []) mockParams mockContext mockAddress)
       = Inl ''fetch failed''
   \<and> invoke_try (mockPlatform []) mockParams mockContext [] =
     (Inl (Error ''fetch failed''), [authenticate_call (mockPlatform []) mockParams mockContext mockAddress])
   \<and> invoke (mockPlatform []) mockParams mockContext [] =
     (Inl (FatalError ''Unexpected error: fetch failed''),
      [authenticate_call (mockPlatform []) mockParams mockContext mockAddress])"
proof -
  have r: "transport (mockPlatform []) [] (authenticate_call (mockPlatform []) mockParams mockContext mockAddress)
       = Inl ''fetch failed''"
    by (simp add: mock_simps)
  from authenticate_call_rejected [OF mock_passes_checks r]
  have t: "invoke_try (mockPlatform []) mockParams mockContext [] =
     (Inl (Error ''fetch failed''), [authenticate_call (mockPlatform []) mockParams mockContext mockAddress])"
    by (simp add: invoke_try_calls [OF mock_passes_checks])
  from r t mock_passes_checks
    invoke_wraps_unclassified [where P = "mockPlatform []" and p = mockParams and c = mockContext
      and sent = "[]" and m = "''fetch failed''" and b = mockAddress
      and sent' = "[authenticate_call (mockPlatform []) mockParams mockContext mockAddress]"]
  show ?thesis by simp
qed

theorem halt_returns_record_witness:
  "printable (param [''reason'' \<mapsto> JStr ''system_shutdown''] ''reason'')
   \<and> valid_date (clock (mockPlatform []))
   \<and> halt (mockPlatform []) [''reason'' \<mapsto> JStr ''system_shutdown''] mockContext [] =
     (Inr \<lparr>sessionId = JStr ''unknown'', authMethodId = JStr ''unknown'',
           reason = JStr ''system_shutdown'', haltedAt = ''2024-01-15T10:30:00.000Z'',
           cleanupCompleted = True\<rparr>, [])
   \<and> is_iso8601 ''2024-01-15T10:30:00.000Z''"
  using halt_returns_record [of "[''reason'' \<mapsto> JStr ''system_shutdown'']" "mockPlatform []" mockContext "[]"]
    mock_valid_date [of "[]"]
  by (simp add: echoed_or_unknown_def mock_clock param_def)

theorem halt_blank_sessionId_counterexample:
  "[''sessionId'' \<mapsto> JStr [], ''authMethodId'' \<mapsto> JStr ''ampw_1234567890'', ''reason'' \<mapsto> JStr ''timeout'']
     ''sessionId'' = Some (JStr [])
   \<and> halt (mockPlatform [])
       [''sessionId'' \<mapsto> JStr [], ''authMethodId'' \<mapsto> JStr ''ampw_1234567890'', ''reason'' \<mapsto> JStr ''timeout'']
       mockContext [] =
     (Inr \<lparr>sessionId = JStr ''unknown'', authMethodId = JStr ''ampw_1234567890'',
           reason = JStr ''timeout'', haltedAt = ''2024-01-15T10:30:00.000Z'',
           cleanupCompleted = True\<rparr>, [])"
  by (simp add: halt_def js_or_def param_def mock_clock)

text \<open>A \<open>reason\<close> that has no string form.\<close>

lemma halt_throws_example:
  "halt (mockPlatform []) [''reason'' \<mapsto> JObj [(''toString'', JNull)]] mockContext [] =
     (Inl (Error ''Cannot convert object to primitive value''), [])"
  by (simp add: halt_def param_def)

theorem falsy_version_and_token_rejected_witness:
  "ok (versionResponse (JNum 0)) \<and> ok (tokenResponse (JStr []))
   \<and> getSession (mockPlatform [Inr (versionResponse (JNum 0))]) (JStr ''s_1234567890'') (JStr ''mock-token'')
        mockAddress [] =
      (Inl (FatalError ''No version returned from session''),
       [getSession_request (mockPlatform [Inr (versionResponse (JNum 0))])
          (session_url mockAddress ''s_1234567890'') ''mock-token''])
   \<and> authenticate (mockPlatform [Inr (tokenResponse (JStr []))]) (JStr ''ampw_1234567890'')
        (JStr ''testuser'') (JStr ''testpass'') mockAddress [] =
      (Inl (FatalError ''No token returned from authentication''),
       [authenticate_request (mockPlatform [Inr (tokenResponse (JStr []))])
          (authenticate_url mockAddress ''ampw_1234567890'') (JStr ''testuser'') (JStr ''testpass'')])"
  using falsy_version_and_token_rejected [where P = "mockPlatform [Inr (versionResponse (JNum 0))]"
      and sent = "[]" and s = "JStr ''s_1234567890''" and sid = "''s_1234567890''"
      and t = "JStr ''mock-token''" and tok = "''mock-token''" and b = mockAddress
      and r = "versionResponse (JNum 0)" and kvs = "[(''version'', JNum 0)]"]
    falsy_version_and_token_rejected [where P = "mockPlatform [Inr (tokenResponse (JStr []))]"
      and sent = "[]" and a = "JStr ''ampw_1234567890''" and aid = "''ampw_1234567890''"
      and u = "JStr ''testuser''"
      and pw = "JStr ''testpass''" and b = mockAddress and r' = "tokenResponse (JStr [])"
      and kvs' = "[(''attributes'', JObj [(''token'', JStr [])])]" and avs = "[(''token'', JStr [])]"]
  by (simp add: mock_simps) (simp add: versionResponse_def tokenResponse_def)

theorem invoke_retryable_iff_transient_witness:
  "passes_checks mockParams mockContext mockAddress
   \<and> transient (failureResponse 429) \<and> transient (failureResponse 503)
   \<and> (\<exists>m. invoke (mockPlatform [Inr (failureResponse 429)]) mockParams mockContext [] =
         (Inl (RetryableError m),
          [authenticate_call (mockPlatform [Inr (failureResponse 429)]) mockParams mockContext mockAddress]))
   \<and> (\<exists>m. invoke (mockPlatform [Inr (tokenResponse (JStr ''mock-token'')),
                                   Inr (versionResponse (JNum 1)), Inr (failureResponse 503)])
              mockParams mockContext [] =
         (Inl (RetryableError m),
          [authenticate_call (mockPlatform [Inr (tokenResponse (JStr ''mock-token'')),
               Inr (versionResponse (JNum 1)), Inr (failureResponse 503)]) mockParams mockContext mockAddress,
           getSession_call (mockPlatform [Inr (tokenResponse (JStr ''mock-token'')),
               Inr (versionResponse (JNum 1)), Inr (failureResponse 503)]) mockParams (JStr ''mock-token'')
               mockAddress,
           cancelSession_call (mockPlatform [Inr (tokenResponse (JStr ''mock-token'')),
               Inr (versionResponse (JNum 1)), Inr (failureResponse 503)]) mockParams (JNum 1)
               (JStr ''mock-token'') mockAddress]))"
  using invoke_retryable_iff_transient [of mockParams mockContext mockAddress
      "mockPlatform [Inr (failureResponse 429)]" "[]" "failureResponse 429"]
    invoke_retryable_iff_transient [of mockParams mockContext mockAddress
      "mockPlatform [Inr (tokenResponse (JStr ''mock-token'')), Inr (versionResponse (JNum 1)),
                     Inr (failureResponse 503)]" "[]"
      "tokenResponse (JStr ''mock-token'')" "versionResponse (JNum 1)" "failureResponse 503"]
    mock_passes_checks
  by (simp add: mock_simps transient_def)

end
